theory Spec2Isabelle
  imports Main "HOL-Library.Sublist" "HOL-Library.AList"
begin

section \<open>The remote-execution decorator of \<^verbatim>\<open>volt/sdk/decorators.py\<close>\<close>

text \<open>
  The development embeds \<^verbatim>\<open>machine(...)(func)(*args, **kwargs)\<close>, the wrapper of
  \<^verbatim>\<open>src/volt/sdk/decorators.py\<close>. The wrapper is a sequential procedure that talks to
  collaborators whose code is not part of the sources (the \<^verbatim>\<open>Lium\<close> SDK object, the
  operating system, \<^verbatim>\<open>tempfile\<close>, \<^verbatim>\<open>inspect\<close>, the clock and the random generator).
  Every call to a collaborator is logged as an event, and what the collaborator answers
  (a value or a raised exception) is read from an environment record, one field per
  call site. Exceptions are values of type \<open>error\<close>; the local variables that the
  \<^verbatim>\<open>finally\<close> blocks inspect (\<^verbatim>\<open>pod_info\<close>, \<^verbatim>\<open>venv_path\<close>) are part of an explicit state.
\<close>

subsection \<open>Python values\<close>

text \<open>
  The values a decorated function may return and the values \<^verbatim>\<open>json.load\<close> produces.
  Floating-point numbers are not modelled. Strings are byte strings.
\<close>

datatype pyval =
    PNone
  | PBool bool
  | PInt int
  | PStr string
  | PList "pyval list"
  | PTuple "pyval list"
  | PDict "(pyval \<times> pyval) list"

text \<open>Python truthiness (\<^verbatim>\<open>bool(v)\<close>).\<close>

fun py_truthy :: "pyval \<Rightarrow> bool" where
  "py_truthy PNone = False"
| "py_truthy (PBool b) = b"
| "py_truthy (PInt i) = (i \<noteq> 0)"
| "py_truthy (PStr s) = (s \<noteq> [])"
| "py_truthy (PList xs) = (xs \<noteq> [])"
| "py_truthy (PTuple xs) = (xs \<noteq> [])"
| "py_truthy (PDict kvs) = (kvs \<noteq> [])"

fun py_type_name :: "pyval \<Rightarrow> string" where
  "py_type_name PNone = ''NoneType''"
| "py_type_name (PBool b) = ''bool''"
| "py_type_name (PInt i) = ''int''"
| "py_type_name (PStr s) = ''str''"
| "py_type_name (PList xs) = ''list''"
| "py_type_name (PTuple xs) = ''tuple''"
| "py_type_name (PDict kvs) = ''dict''"

text \<open>
  Exceptions. \<open>LiumError\<close>, \<open>StopIteration\<close>, \<open>KeyError\<close>, \<open>AttributeError\<close> and
  \<open>TypeError\<close> are raised by the wrapper's own statements (or by the generated script);
  \<open>Collab d\<close> is any exception (a subclass of \<^verbatim>\<open>Exception\<close>) raised inside a
  collaborator, with an uninterpreted description.
\<close>

datatype error =
    LiumError string
  | StopIteration
  | KeyError string
  | AttributeError string
  | TypeError string
  | Collab string

subsection \<open>Strings\<close>

abbreviation NL :: char where "NL \<equiv> CHR 0x0A"
abbreviation SQ :: char where "SQ \<equiv> CHR 0x27"
abbreviation DQ :: char where "DQ \<equiv> CHR 0x22"

text \<open>Decimal rendering of \<^verbatim>\<open>int(time.time())\<close> and of \<^verbatim>\<open>random.randint(...)\<close> in an f-string.\<close>

definition digit_char :: "nat \<Rightarrow> char" where
  "digit_char d = (''0123456789'' ! d)"

fun show_nat :: "nat \<Rightarrow> string" where
  "show_nat n = (if n < 10 then [digit_char n] else show_nat (n div 10) @ [digit_char (n mod 10)])"

declare show_nat.simps [simp del]

definition show_int :: "int \<Rightarrow> string" where
  "show_int i = (if i < 0 then CHR ''-'' # show_nat (nat (- i)) else show_nat (nat i))"

text \<open>\<^verbatim>\<open>str.lower()\<close> on one ASCII character.\<close>

definition lower_char :: "char \<Rightarrow> char" where
  "lower_char c =
     (case map_of (zip ''ABCDEFGHIJKLMNOPQRSTUVWXYZ'' ''abcdefghijklmnopqrstuvwxyz'') c of
        None \<Rightarrow> c
      | Some d \<Rightarrow> d)"

text \<open>
  A string is the UTF-8 encoding of a Python \<^verbatim>\<open>str\<close>; on well-formed UTF-8 a contiguous
  run of bytes is a substring exactly when it is one of code points. \<^verbatim>\<open>str.lower()\<close> is
  Unicode-aware: on a string of ASCII characters it maps \<open>A..Z\<close> to \<open>a..z\<close>; what it
  does to a string with a non-ASCII character is left to the parameter \<open>ulower\<close>.
\<close>

definition is_ascii :: "string \<Rightarrow> bool" where
  "is_ascii s = list_all (\<lambda>c. (of_char c :: nat) < 128) s"

definition lower :: "(string \<Rightarrow> string) \<Rightarrow> string \<Rightarrow> string" where
  "lower ulower s = (if is_ascii s then map lower_char s else ulower s)"

text \<open>\<^verbatim>\<open>sep.join(parts)\<close>.\<close>

fun join :: "string \<Rightarrow> string list \<Rightarrow> string" where
  "join sep [] = []"
| "join sep [x] = x"
| "join sep (x # y # ys) = x @ sep @ join sep (y # ys)"

text \<open>\<^verbatim>\<open>s.split('\n')\<close>: never empty, one more piece than there are newlines.\<close>

fun split_nl :: "string \<Rightarrow> string list" where
  "split_nl [] = [[]]"
| "split_nl (c # cs) =
     (if c = NL then [] # split_nl cs
      else (case split_nl cs of [] \<Rightarrow> [[c]] | l # ls \<Rightarrow> (c # l) # ls))"

text \<open>
  \<^verbatim>\<open>shlex.quote\<close> of the standard library: the empty string becomes \<^verbatim>\<open>''\<close>, a string
  of safe characters is returned as it is, anything else is wrapped in single quotes with
  each single quote replaced by \<^verbatim>\<open>'"'"'\<close>.
\<close>

definition safe_char :: "char \<Rightarrow> bool" where
  "safe_char c \<longleftrightarrow>
     c \<in> set ''abcdefghijklmnopqrstuvwxyzABCDEFGHIJKLMNOPQRSTUVWXYZ0123456789_@%+=:,./-''"

definition shlex_quote :: "string \<Rightarrow> string" where
  "shlex_quote s =
     (if s = [] then [SQ, SQ]
      else if list_all safe_char s then s
      else [SQ] @ concat (map (\<lambda>c. if c = SQ then [SQ, DQ, SQ, DQ, SQ] else [c]) s) @ [SQ])"

subsection \<open>Step 1: the executor matching the machine type (lines 44--52)\<close>

text \<open>Of \<^verbatim>\<open>ExecutorInfo\<close> the wrapper reads \<^verbatim>\<open>id\<close> and \<^verbatim>\<open>machine_name\<close> only.\<close>

record executor =
  executor_id :: string
  machine_name :: string

text \<open>\<^verbatim>\<open>machine.lower() in executor.machine_name.lower()\<close>\<close>

definition matches :: "(string \<Rightarrow> string) \<Rightarrow> string \<Rightarrow> executor \<Rightarrow> bool" where
  "matches ulower m ex \<longleftrightarrow> sublist (lower ulower m) (lower ulower (machine_name ex))"

text \<open>The \<^verbatim>\<open>for\<close> loop with its \<^verbatim>\<open>break\<close>; \<open>None\<close> is the initial \<^verbatim>\<open>matching_executor = None\<close>.\<close>

fun find_matching :: "(string \<Rightarrow> string) \<Rightarrow> string \<Rightarrow> executor list \<Rightarrow> executor option" where
  "find_matching ulower m [] = None"
| "find_matching ulower m (ex # executors) =
     (if matches ulower m ex then Some ex else find_matching ulower m executors)"

subsection \<open>Step 3: the function source without decorators (lines 71--78)\<close>

text \<open>\<^verbatim>\<open>next(i for i, line in enumerate(lines) if 'def ' in line)\<close>; \<open>None\<close> is \<^verbatim>\<open>StopIteration\<close>.\<close>

fun def_index :: "string list \<Rightarrow> nat option" where
  "def_index [] = None"
| "def_index (line # lines) =
     (if sublist ''def '' line then Some 0 else map_option Suc (def_index lines))"

definition strip_decorators :: "string \<Rightarrow> error + string" where
  "strip_decorators func_source =
     (let lines = split_nl func_source in
      case def_index lines of
        None \<Rightarrow> Inl StopIteration
      | Some i \<Rightarrow> Inr (join [NL] (drop i lines)))"

subsection \<open>Step 4: the runner script (lines 81--110)\<close>

definition script_header :: string where
  "script_header = join [NL]
     [''#!/usr/bin/env python3'',
      ''import sys'',
      ''import traceback'',
      ''import json'',
      '''',
      ''# Function source code'',
      '''']"

definition script_footer :: "string \<Rightarrow> string \<Rightarrow> string \<Rightarrow> string" where
  "script_footer func_name args_repr kwargs_repr = join [NL]
     ['''',
      '''',
      ''try:'',
      ''    # Arguments'',
      ''    args = '' @ args_repr,
      ''    kwargs = '' @ kwargs_repr,
      '''',
      ''    # Execute function'',
      ''    result = '' @ func_name @ ''(*args, **kwargs)'',
      '''',
      ''    # Save result as JSON'',
      ''    with open('/tmp/result.json', 'w') as f:'',
      ''        json.dump({'success': True, 'result': result}, f)'',
      '''',
      ''except Exception as e:'',
      ''    # Save error'',
      ''    with open('/tmp/result.json', 'w') as f:'',
      ''        json.dump({'',
      ''            'success': False,'',
      ''            'error': str(e),'',
      ''            'traceback': traceback.format_exc()'',
      ''        }, f)'',
      ''    sys.exit(1)'',
      '''']"

definition runner_script :: "string \<Rightarrow> string \<Rightarrow> string \<Rightarrow> string \<Rightarrow> string" where
  "runner_script func_source func_name args_repr kwargs_repr =
     script_header @ func_source @ script_footer func_name args_repr kwargs_repr"

subsection \<open>Collaborators, events and local state\<close>

text \<open>
  What \<^verbatim>\<open>sdk.exec\<close> returns: the wrapper reads the keys \<^verbatim>\<open>success\<close>, \<^verbatim>\<open>stdout\<close> and
  \<^verbatim>\<open>stderr\<close> (the interface of the remote session: \<^verbatim>\<open>exec(handle, command) ->
  {success, stdout, stderr}\<close>).
\<close>

record exec_result =
  success :: bool
  stdout :: string
  stderr :: string

datatype pod_dict = PodDict string

datatype pod = Pod string

text \<open>The arguments of the decorator.\<close>

record config =
  machine :: string
  template_id :: "string option"
  cleanup :: bool
  requirements :: "string list option"

text \<open>
  One call of the decorated function: its name and the \<^verbatim>\<open>repr\<close> of the positional and
  keyword arguments, as they are interpolated into the script.
\<close>

record invocation =
  func_name :: string
  args_repr :: string
  kwargs_repr :: string

text \<open>The four remote commands the wrapper issues through \<^verbatim>\<open>sdk.exec\<close>.\<close>

datatype step = CreateVenv | InstallReqs | RunScript | RemoveVenv

datatype event =
    EvInit
  | EvLs
  | EvDefaultTemplate string
  | EvUp string string "string option"
  | EvWaitReady pod_dict nat
  | EvGetSource
  | EvWriteScript string
  | EvUpload pod string string
  | EvExec step pod string
  | EvMkTemp
  | EvDownload pod string string
  | EvLoadJson string
  | EvUnlink string
  | EvDown pod

text \<open>An exception raised inside a collaborator, by its description.\<close>

type_synonym exn = string

text \<open>
  The answers of the collaborators, one field per call site of the wrapper, in the order
  of the source. \<open>Inl\<close> is a raised exception. \<open>template_out\<close> is the \<^verbatim>\<open>id\<close> of the
  template returned by \<^verbatim>\<open>default_docker_template\<close> (\<open>None\<close> for a falsy answer);
  \<open>wait_ready_out\<close> is the pod returned by \<^verbatim>\<open>wait_ready\<close> (\<open>None\<close> for a falsy answer,
  which is how the SDK reports that the pod was not ready within the timeout);
  \<open>load_out\<close> is \<^verbatim>\<open>open(result_file)\<close> followed by \<^verbatim>\<open>json.load\<close>;
  \<open>str_of\<close> is \<^verbatim>\<open>str(v)\<close> for a value that is not a string;
  \<open>unicode_lower\<close> is \<^verbatim>\<open>s.lower()\<close> for a string with a non-ASCII character.
\<close>

record env =
  init_out :: "exn + unit"
  ls_out :: "exn + executor list"
  time_pod :: nat
  template_out :: "exn + string option"
  up_out :: "exn + pod_dict"
  wait_ready_out :: "exn + pod option"
  getsource_out :: "exn + string"
  write_script_out :: "exn + string"
  upload_out :: "exn + unit"
  time_venv :: nat
  rand :: nat
  venv_out :: "exn + exec_result"
  install_out :: "exn + exec_result"
  run_out :: "exn + exec_result"
  mktemp_out :: "exn + string"
  download_out :: "exn + unit"
  load_out :: "exn + pyval"
  result_exists :: bool
  unlink_result_out :: "exn + unit"
  unlink_runner_out :: "exn + unit"
  rm_venv_out :: "exn + exec_result"
  down_out :: "exn + unit"
  str_of :: "pyval \<Rightarrow> string"
  unicode_lower :: "string \<Rightarrow> string"

text \<open>
  The state of one run of the wrapper: the events so far and the two local variables
  that the outer \<^verbatim>\<open>finally\<close> block reads. \<open>venv_path = None\<close> is
  \<^verbatim>\<open>'venv_path' not in locals()\<close>.
\<close>

record locals =
  trace :: "event list"
  pod_info :: "pod option"
  venv_path :: "string option"

definition init_locals :: locals where
  "init_locals = \<lparr>trace = [], pod_info = None, venv_path = None\<rparr>"

type_synonym 'a run = "locals \<Rightarrow> (error + 'a) \<times> locals"

definition return :: "'a \<Rightarrow> 'a run" where
  "return x s = (Inr x, s)"

definition raise :: "error \<Rightarrow> 'a run" where
  "raise e s = (Inl e, s)"

text \<open>A call to a collaborator: the event is logged, the answer comes from the environment.\<close>

definition log :: "event \<Rightarrow> locals \<Rightarrow> locals" where
  "log ev s = s\<lparr>trace := trace s @ [ev]\<rparr>"

definition call :: "event \<Rightarrow> exn + 'a \<Rightarrow> 'a run" where
  "call ev out s = ((case out of Inl d \<Rightarrow> Inl (Collab d) | Inr x \<Rightarrow> Inr x), log ev s)"

text \<open>Sequencing: an exception skips the rest.\<close>

definition then_do :: "'a run \<Rightarrow> ('a \<Rightarrow> 'b run) \<Rightarrow> 'b run" where
  "then_do m f s = (case m s of (Inl e, s') \<Rightarrow> (Inl e, s') | (Inr x, s') \<Rightarrow> f x s')"

text \<open>
  \<^verbatim>\<open>try: m finally: c\<close>. The handler always runs; when it raises, its exception replaces
  the outcome of the body, otherwise the outcome of the body stands.
\<close>

definition finally_do :: "'a run \<Rightarrow> unit run \<Rightarrow> 'a run" where
  "finally_do m c s =
     (case m s of (r, s') \<Rightarrow>
        (case c s' of (Inl e, s'') \<Rightarrow> (Inl e, s'') | (Inr u, s'') \<Rightarrow> (r, s'')))"

text \<open>\<^verbatim>\<open>try: m except Exception: pass\<close>\<close>

definition swallow :: "'a run \<Rightarrow> unit run" where
  "swallow m s = (case m s of (r, s') \<Rightarrow> (Inr (), s'))"

text \<open>The outcome of a block as a value, for \<^verbatim>\<open>try: m except Exception: ...\<close>.\<close>

definition attempt :: "'a run \<Rightarrow> (error + 'a) run" where
  "attempt m s = (case m s of (r, s') \<Rightarrow> (Inr r, s'))"

definition set_pod_info :: "pod option \<Rightarrow> unit run" where
  "set_pod_info p s = (Inr (), s\<lparr>pod_info := p\<rparr>)"

definition set_venv_path :: "string \<Rightarrow> unit run" where
  "set_venv_path v s = (Inr (), s\<lparr>venv_path := Some v\<rparr>)"

subsection \<open>Steps 1 and 2: selection and provisioning (lines 44--69)\<close>

definition find_executor :: "config \<Rightarrow> env \<Rightarrow> executor run" where
  "find_executor cfg env =
     then_do (call EvLs (ls_out env)) (\<lambda>executors.
       case find_matching (unicode_lower env) (machine cfg) executors of
         None \<Rightarrow> raise (LiumError (''No executor found matching machine type: '' @ machine cfg))
       | Some matching_executor \<Rightarrow> return matching_executor)"

definition pod_name_of :: "invocation \<Rightarrow> env \<Rightarrow> string" where
  "pod_name_of ivk env = ''remote-'' @ func_name ivk @ ''-'' @ show_nat (time_pod env)"

definition max_wait :: nat where
  "max_wait = 300"

definition create_pod :: "invocation \<Rightarrow> env \<Rightarrow> executor \<Rightarrow> pod run" where
  "create_pod ivk env matching_executor =
     (let pod_name = pod_name_of ivk env in
      then_do (call (EvDefaultTemplate (executor_id matching_executor)) (template_out env)) (\<lambda>template.
      then_do (call (EvUp (executor_id matching_executor) pod_name template) (up_out env)) (\<lambda>pod_dict.
      then_do (call (EvWaitReady pod_dict max_wait) (wait_ready_out env)) (\<lambda>ready.
      then_do (set_pod_info ready) (\<lambda>u.
        case ready of
          None \<Rightarrow> raise (LiumError (''Pod '' @ pod_name @ '' failed to start within ''
                                     @ show_nat max_wait @ ''s''))
        | Some p \<Rightarrow> return p)))))"

subsection \<open>Steps 3 and 4: packaging (lines 71--115)\<close>

definition package :: "invocation \<Rightarrow> env \<Rightarrow> string run" where
  "package ivk env =
     then_do (call EvGetSource (getsource_out env)) (\<lambda>captured.
       case strip_decorators captured of
         Inl e \<Rightarrow> raise e
       | Inr func_source \<Rightarrow>
           call (EvWriteScript
                   (runner_script func_source (func_name ivk) (args_repr ivk) (kwargs_repr ivk)))
                (write_script_out env))"

subsection \<open>Steps 5 to 8: upload, environment, requirements, execution (lines 117--145)\<close>

definition venv_path_of :: "env \<Rightarrow> string" where
  "venv_path_of env = ''/tmp/lium_venv_'' @ show_nat (time_venv env) @ ''_'' @ show_nat (rand env)"

definition venv_python_of :: "env \<Rightarrow> string" where
  "venv_python_of env = venv_path_of env @ ''/bin/python''"

definition venv_cmd :: "env \<Rightarrow> string" where
  "venv_cmd env = ''python3 -m venv '' @ shlex_quote (venv_path_of env)"

definition run_cmd :: "env \<Rightarrow> string" where
  "run_cmd env = shlex_quote (venv_python_of env) @ '' /tmp/runner.py''"

text \<open>\<^verbatim>\<open>[req for req in (requirements or []) if req]\<close>\<close>

definition reqs_of :: "config \<Rightarrow> string list" where
  "reqs_of cfg =
     filter (\<lambda>req. req \<noteq> []) (case requirements cfg of None \<Rightarrow> [] | Some rs \<Rightarrow> rs)"

definition install_cmd :: "env \<Rightarrow> string list \<Rightarrow> string" where
  "install_cmd env reqs =
     shlex_quote (venv_python_of env) @ '' -m pip install '' @ join '' '' (map shlex_quote reqs)"

definition install_error :: "string list \<Rightarrow> string \<Rightarrow> error" where
  "install_error reqs err =
     LiumError (''Failed installing requirements ('' @ join '', '' reqs @ ''):'' @ [NL] @ err)"

definition install_requirements :: "config \<Rightarrow> env \<Rightarrow> pod \<Rightarrow> unit run" where
  "install_requirements cfg env p =
     (let reqs = reqs_of cfg in
      if reqs \<noteq> [] then
        then_do (call (EvExec InstallReqs p (install_cmd env reqs)) (install_out env)) (\<lambda>install_result.
          if \<not> success install_result then raise (install_error reqs (stderr install_result))
          else return ())
      else return ())"

definition create_venv :: "env \<Rightarrow> pod \<Rightarrow> unit run" where
  "create_venv env p =
     then_do (set_venv_path (venv_path_of env)) (\<lambda>u.
     then_do (call (EvExec CreateVenv p (venv_cmd env)) (venv_out env)) (\<lambda>venv_result.
       if \<not> success venv_result
       then raise (LiumError (''Failed to create virtual environment:'' @ [NL] @ stderr venv_result))
       else return ()))"

subsection \<open>Step 9: download and classification (lines 147--174)\<close>

text \<open>
  The \<^verbatim>\<open>try/except/finally\<close> around the download. Any exception of the three statements
  of the \<^verbatim>\<open>try\<close> block leaves \<^verbatim>\<open>result_data = None\<close>. The \<^verbatim>\<open>finally\<close> block unlinks
  the local copy when \<^verbatim>\<open>result_file\<close> was set (and is a non-empty name) and the file
  exists; an exception of that \<^verbatim>\<open>os.unlink\<close> propagates.
\<close>

definition download_result :: "env \<Rightarrow> pod \<Rightarrow> pyval run" where
  "download_result env p =
     then_do (attempt (call EvMkTemp (mktemp_out env))) (\<lambda>tmp.
       case tmp of
         Inl e \<Rightarrow> return PNone
       | Inr result_file \<Rightarrow>
           then_do (attempt
                      (then_do (call (EvDownload p ''/tmp/result.json'' result_file) (download_out env)) (\<lambda>u.
                         call (EvLoadJson result_file) (load_out env)))) (\<lambda>loaded.
           then_do (if result_file \<noteq> [] \<and> result_exists env
                    then call (EvUnlink result_file) (unlink_result_out env)
                    else return ()) (\<lambda>u.
             return (case loaded of Inl e \<Rightarrow> PNone | Inr result_data \<Rightarrow> result_data))))"

text \<open>\<^verbatim>\<open>d.get(key, default)\<close> on the items of a dict.\<close>

definition dict_get :: "(pyval \<times> pyval) list \<Rightarrow> string \<Rightarrow> pyval \<Rightarrow> pyval" where
  "dict_get kvs k dflt = (case map_of kvs (PStr k) of None \<Rightarrow> dflt | Some v \<Rightarrow> v)"

text \<open>What \<^verbatim>\<open>v.get\<close> raises on a value that is not a dict.\<close>

definition no_get :: "pyval \<Rightarrow> error" where
  "no_get v = AttributeError ([SQ] @ py_type_name v @ [SQ] @ '' object has no attribute 'get'' @ [SQ])"

text \<open>\<^verbatim>\<open>str(v)\<close> as an f-string interpolates it.\<close>

definition py_str :: "env \<Rightarrow> pyval \<Rightarrow> string" where
  "py_str env v = (case v of PStr s \<Rightarrow> s | w \<Rightarrow> str_of env w)"

definition unknown_remote_error :: string where
  "unknown_remote_error = ''Unknown remote error''"

definition remote_failed :: "string \<Rightarrow> error" where
  "remote_failed msg = LiumError (''Remote execution failed:'' @ [NL] @ msg)"

text \<open>Lines 167--170: the message built from the fields of the artifact.\<close>

definition artifact_message :: "env \<Rightarrow> (pyval \<times> pyval) list \<Rightarrow> string" where
  "artifact_message env kvs =
     (let err_msg = py_str env (dict_get kvs ''error'' (PStr unknown_remote_error));
          tb = dict_get kvs ''traceback'' PNone
      in if py_truthy tb
         then err_msg @ [NL, NL] @ ''Traceback:'' @ [NL] @ py_str env tb
         else err_msg)"

text \<open>Line 173: \<^verbatim>\<open>stderr or stdout or 'Unknown remote error'\<close>.\<close>

definition stream_message :: "exec_result \<Rightarrow> string" where
  "stream_message exec_res =
     (if stderr exec_res \<noteq> [] then stderr exec_res
      else if stdout exec_res \<noteq> [] then stdout exec_res
      else unknown_remote_error)"

text \<open>
  Lines 162--174, a function of the parsed artifact and of the result of the run. The
  first \<^verbatim>\<open>result_data.get\<close> is reached by every truthy \<^verbatim>\<open>result_data\<close> and raises when
  it is not a dict.
\<close>

definition classify :: "env \<Rightarrow> pyval \<Rightarrow> exec_result \<Rightarrow> error + pyval" where
  "classify env result_data exec_res =
     (if py_truthy result_data then
        (case result_data of
           PDict kvs \<Rightarrow>
             if py_truthy (dict_get kvs ''success'' PNone) then
               (case map_of kvs (PStr ''result'') of
                  None \<Rightarrow> Inl (KeyError ''result'')
                | Some v \<Rightarrow> Inr v)
             else if \<not> py_truthy (dict_get kvs ''success'' (PBool True)) then
               Inl (remote_failed (artifact_message env kvs))
             else Inl (remote_failed (stream_message exec_res))
         | v \<Rightarrow> Inl (no_get v))
      else Inl (remote_failed (stream_message exec_res)))"

text \<open>Lines 147--174 together: download, then return the result or raise the error.\<close>

definition retrieve :: "env \<Rightarrow> pod \<Rightarrow> exec_result \<Rightarrow> pyval run" where
  "retrieve env p exec_res =
     then_do (download_result env p) (\<lambda>result_data.
       case classify env result_data exec_res of
         Inl e \<Rightarrow> raise e
       | Inr v \<Rightarrow> return v)"

subsection \<open>The pipeline and its teardown (lines 37--195)\<close>

text \<open>The body of the inner \<^verbatim>\<open>try\<close> (lines 118--174).\<close>

definition remote_body :: "config \<Rightarrow> env \<Rightarrow> pod \<Rightarrow> string \<Rightarrow> pyval run" where
  "remote_body cfg env p runner_file =
     then_do (call (EvUpload p runner_file ''/tmp/runner.py'') (upload_out env)) (\<lambda>u.
     then_do (create_venv env p) (\<lambda>u.
     then_do (install_requirements cfg env p) (\<lambda>u.
     then_do (call (EvExec RunScript p (run_cmd env)) (run_out env)) (\<lambda>exec_res.
       retrieve env p exec_res))))"

text \<open>The body of the outer \<^verbatim>\<open>try\<close> (lines 43--178), the inner \<^verbatim>\<open>finally\<close> included.\<close>

definition pipeline :: "config \<Rightarrow> invocation \<Rightarrow> env \<Rightarrow> pyval run" where
  "pipeline cfg ivk env =
     then_do (find_executor cfg env) (\<lambda>matching_executor.
     then_do (create_pod ivk env matching_executor) (\<lambda>p.
     then_do (package ivk env) (\<lambda>runner_file.
       finally_do (remote_body cfg env p runner_file)
                  (call (EvUnlink runner_file) (unlink_runner_out env)))))"

text \<open>The outer \<^verbatim>\<open>finally\<close> (lines 180--193).\<close>

definition remove_venv :: "env \<Rightarrow> unit run" where
  "remove_venv env s =
     (case (pod_info s, venv_path s) of
        (Some p, Some v) \<Rightarrow>
          swallow (call (EvExec RemoveVenv p (''rm -rf '' @ shlex_quote v)) (rm_venv_out env)) s
      | other \<Rightarrow> return () s)"

definition release_pod :: "config \<Rightarrow> env \<Rightarrow> unit run" where
  "release_pod cfg env s =
     (case pod_info s of
        Some p \<Rightarrow> if cleanup cfg then swallow (call (EvDown p) (down_out env)) s else return () s
      | None \<Rightarrow> return () s)"

definition teardown :: "config \<Rightarrow> env \<Rightarrow> unit run" where
  "teardown cfg env = then_do (remove_venv env) (\<lambda>u. release_pod cfg env)"

definition wrapper :: "config \<Rightarrow> invocation \<Rightarrow> env \<Rightarrow> (error + pyval) \<times> locals" where
  "wrapper cfg ivk env =
     then_do (call EvInit (init_out env)) (\<lambda>sdk.
       finally_do (pipeline cfg ivk env) (teardown cfg env)) init_locals"

definition outcome :: "config \<Rightarrow> invocation \<Rightarrow> env \<Rightarrow> error + pyval" where
  "outcome cfg ivk env = fst (wrapper cfg ivk env)"

definition events :: "config \<Rightarrow> invocation \<Rightarrow> env \<Rightarrow> event list" where
  "events cfg ivk env = trace (snd (wrapper cfg ivk env))"

subsection \<open>What the runner script writes (lines 89--109)\<close>

text \<open>
  The generated script calls the function and dumps a dict with \<^verbatim>\<open>json.dump\<close>; the
  wrapper reads it back with \<^verbatim>\<open>json.load\<close>. \<open>json_roundtrip v\<close> is the value that
  \<^verbatim>\<open>json.load\<close> reads from what \<^verbatim>\<open>json.dump(v)\<close> wrote: a tuple comes back as a list,
  the keys of a dict come back as strings (\<^verbatim>\<open>json.dump\<close> accepts \<^verbatim>\<open>str\<close>, \<^verbatim>\<open>int\<close>,
  \<^verbatim>\<open>bool\<close> and \<^verbatim>\<open>None\<close> keys and raises \<^verbatim>\<open>TypeError\<close> on any other), and of two keys
  with the same text the later value is kept at the earlier position.
\<close>

fun json_key :: "pyval \<Rightarrow> error + string" where
  "json_key (PStr s) = Inr s"
| "json_key (PBool b) = Inr (if b then ''true'' else ''false'')"
| "json_key PNone = Inr ''null''"
| "json_key (PInt i) = Inr (show_int i)"
| "json_key v = Inl (TypeError (''keys must be str, int, float, bool or None, not '' @ py_type_name v))"

fun json_roundtrip :: "pyval \<Rightarrow> error + pyval"
  and json_roundtrip_list :: "pyval list \<Rightarrow> error + pyval list"
  and json_roundtrip_items :: "(pyval \<times> pyval) list \<Rightarrow> error + (pyval \<times> pyval) list"
where
  "json_roundtrip PNone = Inr PNone"
| "json_roundtrip (PBool b) = Inr (PBool b)"
| "json_roundtrip (PInt i) = Inr (PInt i)"
| "json_roundtrip (PStr s) = Inr (PStr s)"
| "json_roundtrip (PList xs) =
     (case json_roundtrip_list xs of Inl e \<Rightarrow> Inl e | Inr ys \<Rightarrow> Inr (PList ys))"
| "json_roundtrip (PTuple xs) =
     (case json_roundtrip_list xs of Inl e \<Rightarrow> Inl e | Inr ys \<Rightarrow> Inr (PList ys))"
| "json_roundtrip (PDict kvs) =
     (case json_roundtrip_items kvs of
        Inl e \<Rightarrow> Inl e
      | Inr items \<Rightarrow> Inr (PDict (foldl (\<lambda>d (k, v). AList.update k v d) [] items)))"
| "json_roundtrip_list [] = Inr []"
| "json_roundtrip_list (x # xs) =
     (case json_roundtrip x of
        Inl e \<Rightarrow> Inl e
      | Inr y \<Rightarrow> (case json_roundtrip_list xs of Inl e \<Rightarrow> Inl e | Inr ys \<Rightarrow> Inr (y # ys)))"
| "json_roundtrip_items [] = Inr []"
| "json_roundtrip_items ((k, v) # kvs) =
     (case json_key k of
        Inl e \<Rightarrow> Inl e
      | Inr name \<Rightarrow>
          (case json_roundtrip v of
             Inl e \<Rightarrow> Inl e
           | Inr w \<Rightarrow>
               (case json_roundtrip_items kvs of
                  Inl e \<Rightarrow> Inl e
                | Inr items \<Rightarrow> Inr ((PStr name, w) # items))))"

text \<open>
  The outcome of \<^verbatim>\<open>func(*args, **kwargs)\<close>: a value, or an exception with its
  \<^verbatim>\<open>str(e)\<close> and its formatted traceback.
\<close>

datatype call_outcome = Returns pyval | Raises string string

definition error_artifact :: "string \<Rightarrow> string \<Rightarrow> pyval" where
  "error_artifact msg tb =
     PDict [(PStr ''success'', PBool False), (PStr ''error'', PStr msg), (PStr ''traceback'', PStr tb)]"

fun error_text :: "error \<Rightarrow> string" where
  "error_text (LiumError m) = m"
| "error_text StopIteration = []"
| "error_text (KeyError m) = [SQ] @ m @ [SQ]"
| "error_text (AttributeError m) = m"
| "error_text (TypeError m) = m"
| "error_text (Collab m) = m"

text \<open>
  The artifact the wrapper reads back after a faithful run of the script. \<open>dump_tb\<close> is
  the traceback text the interpreter formats when \<^verbatim>\<open>json.dump\<close> itself raises, which the
  \<^verbatim>\<open>except\<close> branch of the script then records.
\<close>

definition runner_artifact :: "string \<Rightarrow> call_outcome \<Rightarrow> pyval" where
  "runner_artifact dump_tb oc =
     (case oc of
        Returns v \<Rightarrow>
          (case json_roundtrip (PDict [(PStr ''success'', PBool True), (PStr ''result'', v)]) of
             Inl e \<Rightarrow> error_artifact (error_text e) dump_tb
           | Inr artifact \<Rightarrow> artifact)
      | Raises msg tb \<Rightarrow> error_artifact msg tb)"

text \<open>
  Values that \<^verbatim>\<open>json.dump\<close> and \<^verbatim>\<open>json.load\<close> hand back unchanged: \<^verbatim>\<open>None\<close>, booleans,
  integers, strings, lists of such values, and dicts of such values whose keys are
  (distinct) strings.
\<close>

fun json_native :: "pyval \<Rightarrow> bool"
  and json_native_list :: "pyval list \<Rightarrow> bool"
  and json_native_items :: "(pyval \<times> pyval) list \<Rightarrow> bool"
where
  "json_native PNone = True"
| "json_native (PBool b) = True"
| "json_native (PInt i) = True"
| "json_native (PStr s) = True"
| "json_native (PList xs) = json_native_list xs"
| "json_native (PTuple xs) = False"
| "json_native (PDict kvs) = (json_native_items kvs \<and> distinct (map fst kvs))"
| "json_native_list [] = True"
| "json_native_list (x # xs) = (json_native x \<and> json_native_list xs)"
| "json_native_items [] = True"
| "json_native_items ((k, v) # kvs) =
     ((case k of PStr s \<Rightarrow> True | other \<Rightarrow> False) \<and> json_native v \<and> json_native_items kvs)"

subsection \<open>A concrete run\<close>

text \<open>
  The scenario of the specification: machine type \<^verbatim>\<open>A100\<close> against the listing
  \<^verbatim>\<open>[NVIDIA A100-SXM4-80GB, H200]\<close>, one requirement, a decorated function that returns
  \<^verbatim>\<open>{"x": 1}\<close>, and collaborators that all succeed.
\<close>

definition a100 :: executor where
  "a100 = \<lparr>executor_id = ''ex-1'', machine_name = ''NVIDIA A100-SXM4-80GB''\<rparr>"

definition h200 :: executor where
  "h200 = \<lparr>executor_id = ''ex-2'', machine_name = ''H200''\<rparr>"

definition ok_exec :: exec_result where
  "ok_exec = \<lparr>success = True, stdout = [], stderr = []\<rparr>"

definition demo_cfg :: config where
  "demo_cfg = \<lparr>machine = ''A100'', template_id = None, cleanup = True,
                requirements = Some [''numpy==1.26.0'']\<rparr>"

definition demo_call :: invocation where
  "demo_call = \<lparr>func_name = ''f'', args_repr = ''()'', kwargs_repr = ''{}''\<rparr>"

definition demo_source :: string where
  "demo_source = join [NL]
     [''@machine('' @ [DQ] @ ''A100'' @ [DQ] @ '')'',
      ''def f():'',
      ''    return {'' @ [DQ] @ ''x'' @ [DQ] @ '': 1}'',
      '''']"

definition demo_pod :: pod where
  "demo_pod = Pod ''pod-1''"

definition demo_result :: pyval where
  "demo_result = PDict [(PStr ''x'', PInt 1)]"

definition demo_env :: env where
  "demo_env =
     \<lparr>init_out = Inr (),
      ls_out = Inr [a100, h200],
      time_pod = 1700000000,
      template_out = Inr (Some ''tpl-1''),
      up_out = Inr (PodDict ''pod-1''),
      wait_ready_out = Inr (Some demo_pod),
      getsource_out = Inr demo_source,
      write_script_out = Inr ''/tmp/tmprunner.py'',
      upload_out = Inr (),
      time_venv = 1700000042,
      rand = 1234,
      venv_out = Inr ok_exec,
      install_out = Inr ok_exec,
      run_out = Inr ok_exec,
      mktemp_out = Inr ''/tmp/tmpresult'',
      download_out = Inr (),
      load_out = Inr (runner_artifact [] (Returns demo_result)),
      result_exists = True,
      unlink_result_out = Inr (),
      unlink_runner_out = Inr (),
      rm_venv_out = Inr ok_exec,
      down_out = Inr (),
      str_of = (\<lambda>v. ''<value>''),
      unicode_lower = (\<lambda>s. s)\<rparr>"

text \<open>Variations of the scenario that the statements below are evaluated at.\<close>

definition failed_exec :: "string \<Rightarrow> string \<Rightarrow> exec_result" where
  "failed_exec out err = \<lparr>success = False, stdout = out, stderr = err\<rparr>"

definition demo_script :: string where
  "demo_script =
     runner_script (join [NL] [''def f():'', ''    return {'' @ [DQ] @ ''x'' @ [DQ] @ '': 1}'', ''''])
       ''f'' ''()'' ''{}''"

definition demo_venv :: string where
  "demo_venv = ''/tmp/lium_venv_1700000042_1234''"

text \<open>The events of the scenario up to the creation of the virtual environment.\<close>

definition demo_prefix :: "event list" where
  "demo_prefix =
     [EvInit, EvLs, EvDefaultTemplate ''ex-1'',
      EvUp ''ex-1'' ''remote-f-1700000000'' (Some ''tpl-1''),
      EvWaitReady (PodDict ''pod-1'') 300,
      EvGetSource,
      EvWriteScript demo_script,
      EvUpload demo_pod ''/tmp/tmprunner.py'' ''/tmp/runner.py'',
      EvExec CreateVenv demo_pod (''python3 -m venv '' @ demo_venv)]"

subsection \<open>Reasoning about runs\<close>

text \<open>
  \<open>wp m Q E s\<close>: the run of \<open>m\<close> from \<open>s\<close> ends normally in a state and with a value
  that satisfy \<open>Q\<close>, or with an exception and in a state that satisfy \<open>E\<close>.
\<close>

definition wp :: "'a run \<Rightarrow> ('a \<Rightarrow> locals \<Rightarrow> bool) \<Rightarrow> (error \<Rightarrow> locals \<Rightarrow> bool) \<Rightarrow> locals \<Rightarrow> bool" where
  "wp m Q E s = (case m s of (Inl e, s') \<Rightarrow> E e s' | (Inr x, s') \<Rightarrow> Q x s')"

text \<open>The events of the outer \<^verbatim>\<open>finally\<close> block, from the local variables it reads.\<close>

definition teardown_events :: "config \<Rightarrow> locals \<Rightarrow> event list" where
  "teardown_events cfg s =
     (case pod_info s of
        None \<Rightarrow> []
      | Some p \<Rightarrow>
          (case venv_path s of
             None \<Rightarrow> []
           | Some v \<Rightarrow> [EvExec RemoveVenv p (''rm -rf '' @ shlex_quote v)])
          @ (if cleanup cfg then [EvDown p] else []))"

subsection \<open>The order of the stages, as a checker of event sequences\<close>

datatype phase = Idle | Packaged | Uploaded | EnvCreated | EnvInstalled | Executed

text \<open>
  The order of the source: the script is written, uploaded to \<^verbatim>\<open>/tmp/runner.py\<close>, then the
  virtual environment is created, then the requirements are installed (when there are
  any), then the script is run with the interpreter of that environment.
\<close>

fun source_order :: "env \<Rightarrow> phase \<Rightarrow> event \<Rightarrow> phase option" where
  "source_order env ph (EvWriteScript script) = (if ph = Idle then Some Packaged else None)"
| "source_order env ph (EvUpload p l r) =
     (if ph = Packaged \<and> write_script_out env = Inr l \<and> r = ''/tmp/runner.py''
      then Some Uploaded else None)"
| "source_order env ph (EvExec CreateVenv p c) =
     (if ph = Uploaded \<and> c = venv_cmd env then Some EnvCreated else None)"
| "source_order env ph (EvExec InstallReqs p c) =
     (if ph = EnvCreated then Some EnvInstalled else None)"
| "source_order env ph (EvExec RunScript p c) =
     (if (ph = EnvCreated \<or> ph = EnvInstalled) \<and> c = run_cmd env then Some Executed else None)"
| "source_order env ph ev = Some ph"

text \<open>
  The order Packager, Environment Builder, Executor, where the Executor stage is the
  upload followed by the run: no upload before the environment is built.
\<close>

fun stated_order :: "env \<Rightarrow> phase \<Rightarrow> event \<Rightarrow> phase option" where
  "stated_order env ph (EvWriteScript script) = (if ph = Idle then Some Packaged else None)"
| "stated_order env ph (EvExec CreateVenv p c) =
     (if ph = Packaged \<and> c = venv_cmd env then Some EnvCreated else None)"
| "stated_order env ph (EvExec InstallReqs p c) =
     (if ph = EnvCreated then Some EnvInstalled else None)"
| "stated_order env ph (EvUpload p l r) =
     (if (ph = EnvCreated \<or> ph = EnvInstalled) \<and> write_script_out env = Inr l
         \<and> r = ''/tmp/runner.py''
      then Some Uploaded else None)"
| "stated_order env ph (EvExec RunScript p c) =
     (if ph = Uploaded \<and> c = run_cmd env then Some Executed else None)"
| "stated_order env ph ev = Some ph"

fun follows :: "(phase \<Rightarrow> event \<Rightarrow> phase option) \<Rightarrow> phase \<Rightarrow> event list \<Rightarrow> phase option" where
  "follows order ph [] = Some ph"
| "follows order ph (ev # evs) =
     (case order ph ev of None \<Rightarrow> None | Some ph' \<Rightarrow> follows order ph' evs)"

text \<open>The event is the remote command of the given step.\<close>

fun is_exec :: "step \<Rightarrow> event \<Rightarrow> bool" where
  "is_exec st (EvExec st' p c) = (st = st')"
| "is_exec st ev = False"

subsection \<open>Runs that reach the classification\<close>

text \<open>
  Every step up to the run of the script (lines 39--145) succeeds: the pod \<open>p\<close> is ready,
  the script is written and uploaded, the environment is created, the requirements (when
  there are any) are installed, and \<^verbatim>\<open>sdk.exec\<close> of the script returns \<open>er\<close>.
\<close>

definition runs_script :: "config \<Rightarrow> env \<Rightarrow> pod \<Rightarrow> exec_result \<Rightarrow> bool" where
  "runs_script cfg env p er \<longleftrightarrow>
     init_out env = Inr ()
     \<and> (case ls_out env of
          Inl d \<Rightarrow> False
        | Inr executors \<Rightarrow> find_matching (unicode_lower env) (machine cfg) executors \<noteq> None)
     \<and> \<not> isl (template_out env)
     \<and> \<not> isl (up_out env)
     \<and> wait_ready_out env = Inr (Some p)
     \<and> (case getsource_out env of
          Inl d \<Rightarrow> False
        | Inr captured \<Rightarrow> \<not> isl (strip_decorators captured))
     \<and> \<not> isl (write_script_out env)
     \<and> upload_out env = Inr ()
     \<and> (case venv_out env of Inl d \<Rightarrow> False | Inr venv_result \<Rightarrow> success venv_result)
     \<and> (reqs_of cfg = []
        \<or> (case install_out env of Inl d \<Rightarrow> False | Inr install_result \<Rightarrow> success install_result))
     \<and> run_out env = Inr er"

text \<open>
  The value of \<^verbatim>\<open>result_data\<close> after lines 148--157: what \<^verbatim>\<open>json.load\<close> returned, or
  \<^verbatim>\<open>None\<close> when the temporary file, the download or the load raised.
\<close>

definition loaded_artifact :: "env \<Rightarrow> pyval" where
  "loaded_artifact env =
     (case mktemp_out env of
        Inl d \<Rightarrow> PNone
      | Inr result_file \<Rightarrow>
          (case download_out env of
             Inl d \<Rightarrow> PNone
           | Inr u \<Rightarrow> (case load_out env of Inl d \<Rightarrow> PNone | Inr result_data \<Rightarrow> result_data)))"

text \<open>The two \<^verbatim>\<open>os.unlink\<close> calls of lines 160 and 178 do not raise (the first only if reached).\<close>

definition unlinks_succeed :: "env \<Rightarrow> bool" where
  "unlinks_succeed env \<longleftrightarrow>
     unlink_runner_out env = Inr ()
     \<and> (case mktemp_out env of
          Inl d \<Rightarrow> True
        | Inr result_file \<Rightarrow>
            result_file = [] \<or> \<not> result_exists env \<or> unlink_result_out env = Inr ())"

section \<open>Properties\<close>

subsection \<open>Rules for runs\<close>

lemma wp_return: "wp (return x) Q E s = Q x s"
  by (simp add: wp_def return_def)

lemma wp_raise: "wp (raise e) Q E s = E e s"
  by (simp add: wp_def raise_def)

lemma wp_call:
  "wp (call ev out) Q E s =
     (case out of Inl d \<Rightarrow> E (Collab d) (log ev s) | Inr x \<Rightarrow> Q x (log ev s))"
  by (simp add: wp_def call_def split: sum.splits)

lemma wp_then_do: "wp (then_do m f) Q E s = wp m (\<lambda>x. wp (f x) Q E) E s"
  by (simp add: wp_def then_do_def split: prod.splits sum.splits)

lemma wp_finally_do:
  "wp (finally_do m c) Q E s = wp m (\<lambda>x. wp c (\<lambda>u. Q x) E) (\<lambda>e. wp c (\<lambda>u. E e) E) s"
  by (simp add: wp_def finally_do_def split: prod.splits sum.splits)

lemma wp_attempt: "wp (attempt m) Q E s = wp m (\<lambda>x. Q (Inr x)) (\<lambda>e. Q (Inl e)) s"
  by (simp add: wp_def attempt_def split: prod.splits sum.splits)

lemma wp_set_pod_info: "wp (set_pod_info p) Q E s = Q () (s\<lparr>pod_info := p\<rparr>)"
  by (simp add: wp_def set_pod_info_def)

lemma wp_set_venv_path: "wp (set_venv_path v) Q E s = Q () (s\<lparr>venv_path := Some v\<rparr>)"
  by (simp add: wp_def set_venv_path_def)

text \<open>The outer \<^verbatim>\<open>finally\<close> block never raises and only appends its events.\<close>

lemma wp_teardown:
  "wp (teardown cfg env) Q E s = Q () (s\<lparr>trace := trace s @ teardown_events cfg s\<rparr>)"
  by (cases "pod_info s"; cases "venv_path s"; cases "rm_venv_out env"; cases "down_out env")
     (simp_all add: wp_def teardown_def remove_venv_def release_pod_def teardown_events_def
        then_do_def swallow_def call_def return_def log_def)

lemmas stage_defs = pipeline_def find_executor_def create_pod_def package_def
  remote_body_def create_venv_def install_requirements_def retrieve_def download_result_def

text \<open>A property of the outcome and of the events of every run, from \<open>wp\<close>.\<close>

lemma wrapper_wp:
  assumes "wp (then_do (call EvInit (init_out env))
                 (\<lambda>sdk. finally_do (pipeline cfg ivk env) (teardown cfg env)))
              (\<lambda>x s. P (Inr x) (trace s)) (\<lambda>e s. P (Inl e) (trace s)) init_locals"
  shows "P (outcome cfg ivk env) (events cfg ivk env)"
  using assms
  by (simp add: wp_def outcome_def events_def wrapper_def split: prod.splits sum.splits)

text \<open>The same rules as introduction rules, to walk through a run call by call.\<close>

lemma wp_returnI: "Q x s \<Longrightarrow> wp (return x) Q E s"
  by (simp add: wp_return)

lemma wp_raiseI: "E e s \<Longrightarrow> wp (raise e) Q E s"
  by (simp add: wp_raise)

lemma wp_callI:
  assumes "\<And>d. out = Inl d \<Longrightarrow> E (Collab d) (log ev s)"
    and "\<And>x. out = Inr x \<Longrightarrow> Q x (log ev s)"
  shows "wp (call ev out) Q E s"
  using assms by (cases out) (simp_all add: wp_call)

lemma wp_then_doI: "wp m (\<lambda>x. wp (f x) Q E) E s \<Longrightarrow> wp (then_do m f) Q E s"
  by (simp add: wp_then_do)

lemma wp_finally_doI:
  "wp m (\<lambda>x. wp c (\<lambda>u. Q x) E) (\<lambda>e. wp c (\<lambda>u. E e) E) s \<Longrightarrow> wp (finally_do m c) Q E s"
  by (simp add: wp_finally_do)

lemma wp_attemptI: "wp m (\<lambda>x. Q (Inr x)) (\<lambda>e. Q (Inl e)) s \<Longrightarrow> wp (attempt m) Q E s"
  by (simp add: wp_attempt)

lemma wp_set_pod_infoI: "Q () (s\<lparr>pod_info := p\<rparr>) \<Longrightarrow> wp (set_pod_info p) Q E s"
  by (simp add: wp_set_pod_info)

lemma wp_set_venv_pathI: "Q () (s\<lparr>venv_path := Some v\<rparr>) \<Longrightarrow> wp (set_venv_path v) Q E s"
  by (simp add: wp_set_venv_path)

lemma log_simps:
  "trace (log ev s) = trace s @ [ev]" "pod_info (log ev s) = pod_info s"
  "venv_path (log ev s) = venv_path s"
  by (simp_all add: log_def)

lemma wp_teardownI:
  assumes "\<And>s'. trace s' = trace s @ teardown_events cfg s \<Longrightarrow> Q () s'"
  shows "wp (teardown cfg env) Q E s"
  using assms by (simp add: wp_teardown)

lemma wp_case_sumI:
  assumes "\<And>a. x = Inl a \<Longrightarrow> wp (f a) Q E s" and "\<And>b. x = Inr b \<Longrightarrow> wp (g b) Q E s"
  shows "wp (case x of Inl a \<Rightarrow> f a | Inr b \<Rightarrow> g b) Q E s"
  using assms by (cases x) simp_all

lemma wp_case_optionI:
  assumes "x = None \<Longrightarrow> wp f Q E s" and "\<And>b. x = Some b \<Longrightarrow> wp (g b) Q E s"
  shows "wp (case x of None \<Rightarrow> f | Some b \<Rightarrow> g b) Q E s"
  using assms by (cases x) simp_all

lemma wp_ifI:
  assumes "b \<Longrightarrow> wp m Q E s" and "\<not> b \<Longrightarrow> wp n Q E s"
  shows "wp (if b then m else n) Q E s"
  using assms by simp

lemmas wp_intros = wp_returnI wp_raiseI wp_callI wp_then_doI wp_finally_doI wp_attemptI
  wp_set_pod_infoI wp_set_venv_pathI wp_teardownI wp_case_sumI wp_case_optionI wp_ifI

lemmas leaf_simps = init_locals_def teardown_events_def log_simps

subsection \<open>Facts about the concrete run\<close>

lemma show_nat_demo:
  "show_nat 1700000000 = ''1700000000''" "show_nat 1700000042 = ''1700000042''"
  "show_nat 1234 = ''1234''" "show_nat 300 = ''300''"
  by (simp_all add: show_nat.simps digit_char_def)

lemma matches_demo:
  "matches ul ''A100'' a100" "\<not> matches ul ''A100'' h200"
  "\<not> matches ul ''T4'' a100" "\<not> matches ul ''T4'' h200"
  by (simp_all add: matches_def a100_def h200_def lower_def is_ascii_def lower_char_def sublist_code
      prefix_code)

lemma strip_demo:
  "strip_decorators demo_source =
     Inr (join [NL] [''def f():'', ''    return {'' @ [DQ] @ ''x'' @ [DQ] @ '': 1}'', ''''])"
  by (simp add: strip_decorators_def demo_source_def sublist_code prefix_code)

lemma quote_demo:
  "shlex_quote ''/tmp/lium_venv_1700000042_1234'' = ''/tmp/lium_venv_1700000042_1234''"
  "shlex_quote ''/tmp/lium_venv_1700000042_1234/bin/python'' =
     ''/tmp/lium_venv_1700000042_1234/bin/python''"
  "shlex_quote ''numpy==1.26.0'' = ''numpy==1.26.0''"
  by (simp_all add: shlex_quote_def safe_char_def)

lemma a100_id: "executor_id a100 = ''ex-1''"
  by (simp add: a100_def)

lemmas run_defs = then_do_def finally_do_def call_def log_def raise_def return_def swallow_def
  attempt_def set_pod_info_def set_venv_path_def

lemmas demo_defs = demo_env_def demo_cfg_def demo_call_def demo_venv_def demo_prefix_def
  demo_script_def demo_result_def demo_pod_def ok_exec_def failed_exec_def

lemmas demo_facts = matches_demo show_nat_demo strip_demo quote_demo a100_id

lemmas cmd_defs = pod_name_of_def max_wait_def venv_path_of_def venv_python_of_def venv_cmd_def
  run_cmd_def reqs_of_def install_cmd_def install_error_def

lemmas eval_defs = wrapper_def outcome_def events_def stage_defs teardown_def remove_venv_def
  release_pod_def run_defs init_locals_def cmd_defs Let_def

subsection \<open>Selection of the executor\<close>

lemma find_matching_None_iff:
  "find_matching ul m xs = None \<longleftrightarrow> (\<forall>x\<in>set xs. \<not> matches ul m x)"
  by (induction xs) auto

lemma find_matching_Some_iff:
  "find_matching ul m xs = Some ex \<longleftrightarrow>
     (\<exists>pre post. xs = pre @ ex # post \<and> matches ul m ex \<and> (\<forall>x\<in>set pre. \<not> matches ul m x))"
proof (induction xs)
  case Nil
  then show ?case by simp
next
  case (Cons a xs)
  show ?case
  proof (cases "matches ul m a")
    case True
    have "(\<exists>pre post. a # xs = pre @ ex # post \<and> matches ul m ex \<and> (\<forall>x\<in>set pre. \<not> matches ul m x))
          \<longleftrightarrow> a = ex"
    proof
      assume "\<exists>pre post. a # xs = pre @ ex # post \<and> matches ul m ex \<and> (\<forall>x\<in>set pre. \<not> matches ul m x)"
      then obtain pre post where h: "a # xs = pre @ ex # post" "\<forall>x\<in>set pre. \<not> matches ul m x"
        by blast
      show "a = ex"
      proof (cases pre)
        case Nil
        with h show ?thesis by simp
      next
        case (Cons b bs)
        with h True show ?thesis by auto
      qed
    next
      assume "a = ex"
      with True have "a # xs = [] @ ex # xs \<and> matches ul m ex \<and> (\<forall>x\<in>set []. \<not> matches ul m x)"
        by simp
      then show "\<exists>pre post. a # xs = pre @ ex # post \<and> matches ul m ex \<and> (\<forall>x\<in>set pre. \<not> matches ul m x)"
        by blast
    qed
    with True show ?thesis by auto
  next
    case False
    have "(\<exists>pre post. a # xs = pre @ ex # post \<and> matches ul m ex \<and> (\<forall>x\<in>set pre. \<not> matches ul m x))
          \<longleftrightarrow> (\<exists>pre post. xs = pre @ ex # post \<and> matches ul m ex \<and> (\<forall>x\<in>set pre. \<not> matches ul m x))"
      (is "?L \<longleftrightarrow> ?R")
    proof
      assume ?L
      then obtain pre post where h: "a # xs = pre @ ex # post" "matches ul m ex"
        "\<forall>x\<in>set pre. \<not> matches ul m x"
        by blast
      show ?R
      proof (cases pre)
        case Nil
        with h False show ?thesis by simp
      next
        case (Cons b bs)
        with h have "xs = bs @ ex # post \<and> matches ul m ex \<and> (\<forall>x\<in>set bs. \<not> matches ul m x)"
          by simp
        then show ?thesis by blast
      qed
    next
      assume ?R
      then obtain pre post where h: "xs = pre @ ex # post" "matches ul m ex"
        "\<forall>x\<in>set pre. \<not> matches ul m x"
        by blast
      with False have "a # xs = (a # pre) @ ex # post \<and> matches ul m ex
          \<and> (\<forall>x\<in>set (a # pre). \<not> matches ul m x)"
        by simp
      then show ?L by blast
    qed
    with False Cons.IH show ?thesis by simp
  qed
qed

lemma no_match_run:
  assumes "init_out env = Inr ()" and "ls_out env = Inr xs"
    and "find_matching (unicode_lower env) (machine cfg) xs = None"
  shows "wrapper cfg ivk env =
           (Inl (LiumError (''No executor found matching machine type: '' @ machine cfg)),
            \<lparr>trace = [EvInit, EvLs], pod_info = None, venv_path = None\<rparr>)"
  using assms by (simp add: eval_defs)

lemma find_executor_selects:
  assumes "ls_out env = Inr xs" and "find_matching (unicode_lower env) (machine cfg) xs = Some ex"
  shows "find_executor cfg env s = (Inr ex, log EvLs s)"
  using assms by (simp add: find_executor_def run_defs)

lemma match_run:
  assumes "init_out env = Inr ()" and "ls_out env = Inr xs"
    and "find_matching (unicode_lower env) (machine cfg) xs = Some ex"
  shows "prefix [EvInit, EvLs, EvDefaultTemplate (executor_id ex)] (events cfg ivk env)
         \<and> (\<forall>x n t. EvUp x n t \<in> set (events cfg ivk env) \<longrightarrow> x = executor_id ex)"
proof (rule wrapper_wp[where P="\<lambda>r tr. prefix [EvInit, EvLs, EvDefaultTemplate (executor_id ex)] tr
         \<and> (\<forall>x n t. EvUp x n t \<in> set tr \<longrightarrow> x = executor_id ex)"])
  show "wp (then_do (call EvInit (init_out env))
              (\<lambda>sdk. finally_do (pipeline cfg ivk env) (teardown cfg env)))
          (\<lambda>y s. prefix [EvInit, EvLs, EvDefaultTemplate (executor_id ex)] (trace s)
                 \<and> (\<forall>x n t. EvUp x n t \<in> set (trace s) \<longrightarrow> x = executor_id ex))
          (\<lambda>e s. prefix [EvInit, EvLs, EvDefaultTemplate (executor_id ex)] (trace s)
                 \<and> (\<forall>x n t. EvUp x n t \<in> set (trace s) \<longrightarrow> x = executor_id ex))
          init_locals"
    unfolding stage_defs Let_def
    apply (intro wp_intros)
    using assms
    apply (simp_all add: leaf_simps split: option.splits)
    done
qed

text \<open>
  Claim C4. The selector matches the lower-cased machine type as a contiguous substring of
  the lower-cased machine name, walks the listing in order and returns the first match:
  \<open>find_matching\<close> returns \<open>ex\<close> exactly when \<open>ex\<close> matches and nothing before it in the
  listing does, and the selection step of the wrapper lists the executors once and hands
  on that executor: it is the one whose template is looked up next and on which the pod
  is created. \<^verbatim>\<open>A100\<close> against \<^verbatim>\<open>[NVIDIA A100-SXM4-80GB, H200]\<close> selects the first
  entry. When nothing matches, the wrapper raises the "No executor found" error and the
  only calls made are the construction of the SDK and the listing: no pod is created,
  nothing is uploaded or executed, nothing is released.
\<close>

theorem selector_first_match:
  "(find_matching ul m executors = Some ex \<longleftrightarrow>
      (\<exists>pre post. executors = pre @ ex # post \<and> matches ul m ex
                  \<and> (\<forall>x\<in>set pre. \<not> matches ul m x)))
   \<and> (matches ul m ex \<longleftrightarrow> sublist (lower ul m) (lower ul (machine_name ex)))
   \<and> (lower ul m = lower ul m' \<and> lower ul (machine_name ex) = lower ul (machine_name ex')
        \<longrightarrow> matches ul m ex = matches ul m' ex')
   \<and> lower ul ''A100'' = ''a100''
   \<and> find_matching ul ''A100'' [a100, h200] = Some a100
   \<and> (ls_out env = Inr executors
        \<and> find_matching (unicode_lower env) (machine cfg) executors = Some ex
        \<longrightarrow> find_executor cfg env s = (Inr ex, log EvLs s))
   \<and> (init_out env = Inr () \<and> ls_out env = Inr executors
        \<and> find_matching (unicode_lower env) (machine cfg) executors = Some ex
        \<longrightarrow> prefix [EvInit, EvLs, EvDefaultTemplate (executor_id ex)] (events cfg ivk env)
            \<and> (\<forall>x n t. EvUp x n t \<in> set (events cfg ivk env) \<longrightarrow> x = executor_id ex))
   \<and> (ls_out env = Inr executors
        \<and> (\<forall>x\<in>set executors. \<not> matches (unicode_lower env) (machine cfg) x)
        \<longrightarrow> find_executor cfg env s =
              (Inl (LiumError (''No executor found matching machine type: '' @ machine cfg)),
               log EvLs s))
   \<and> (init_out env = Inr () \<and> ls_out env = Inr executors
        \<and> (\<forall>x\<in>set executors. \<not> matches (unicode_lower env) (machine cfg) x)
        \<longrightarrow> outcome cfg ivk env =
              Inl (LiumError (''No executor found matching machine type: '' @ machine cfg))
            \<and> events cfg ivk env = [EvInit, EvLs]
            \<and> pod_info (snd (wrapper cfg ivk env)) = None)"
proof -
  have ex: "find_matching ul ''A100'' [a100, h200] = Some a100"
    by (simp add: matches_demo)
  have low: "lower ul ''A100'' = ''a100''"
    by (simp add: lower_def is_ascii_def lower_char_def)
  have sel: "find_executor cfg env s = (Inr ex, log EvLs s)"
    if "ls_out env = Inr executors"
      "find_matching (unicode_lower env) (machine cfg) executors = Some ex"
    using find_executor_selects[OF that] .
  have run: "prefix [EvInit, EvLs, EvDefaultTemplate (executor_id ex)] (events cfg ivk env)
            \<and> (\<forall>x n t. EvUp x n t \<in> set (events cfg ivk env) \<longrightarrow> x = executor_id ex)"
    if "init_out env = Inr ()" "ls_out env = Inr executors"
      "find_matching (unicode_lower env) (machine cfg) executors = Some ex"
    using match_run[OF that] .
  have none: "find_executor cfg env s =
              (Inl (LiumError (''No executor found matching machine type: '' @ machine cfg)),
               log EvLs s)"
    if "ls_out env = Inr executors"
      "\<forall>x\<in>set executors. \<not> matches (unicode_lower env) (machine cfg) x"
    using that by (simp add: find_executor_def run_defs find_matching_None_iff[symmetric])
  have stop: "outcome cfg ivk env =
              Inl (LiumError (''No executor found matching machine type: '' @ machine cfg))
            \<and> events cfg ivk env = [EvInit, EvLs]
            \<and> pod_info (snd (wrapper cfg ivk env)) = None"
    if "init_out env = Inr ()" "ls_out env = Inr executors"
      "\<forall>x\<in>set executors. \<not> matches (unicode_lower env) (machine cfg) x"
    using no_match_run[OF that(1,2), of cfg ivk] that(3)
    by (simp add: find_matching_None_iff outcome_def events_def)
  have first: "find_matching ul m executors = Some ex \<longleftrightarrow>
      (\<exists>pre post. executors = pre @ ex # post \<and> matches ul m ex
                  \<and> (\<forall>x\<in>set pre. \<not> matches ul m x))"
    by (rule find_matching_Some_iff)
  have ci: "lower ul m = lower ul m' \<and> lower ul (machine_name ex) = lower ul (machine_name ex')
        \<longrightarrow> matches ul m ex = matches ul m' ex'"
    by (simp add: matches_def)
  show ?thesis
    using ex low sel run none stop first ci
    by (simp only: matches_def[symmetric] simp_thms) blast
qed

theorem selector_first_match_witness:
  "find_matching (unicode_lower demo_env) (machine demo_cfg) [a100, h200] = Some a100
   \<and> lower (unicode_lower demo_env) ''a100'' = lower (unicode_lower demo_env) ''A100''
   \<and> matches (unicode_lower demo_env) ''a100'' a100
   \<and> init_out demo_env = Inr () \<and> ls_out demo_env = Inr [a100, h200]
   \<and> find_executor demo_cfg demo_env init_locals = (Inr a100, log EvLs init_locals)
   \<and> prefix [EvInit, EvLs, EvDefaultTemplate (executor_id a100)]
        (events demo_cfg demo_call demo_env)
   \<and> \<not> matches (unicode_lower demo_env) (machine (demo_cfg\<lparr>machine := ''T4''\<rparr>)) a100
   \<and> \<not> matches (unicode_lower demo_env) (machine (demo_cfg\<lparr>machine := ''T4''\<rparr>)) h200
   \<and> outcome (demo_cfg\<lparr>machine := ''T4''\<rparr>) demo_call demo_env =
        Inl (LiumError ''No executor found matching machine type: T4'')
   \<and> events (demo_cfg\<lparr>machine := ''T4''\<rparr>) demo_call demo_env = [EvInit, EvLs]"
proof -
  let ?ul = "unicode_lower demo_env"
  have low: "lower ?ul ''a100'' = lower ?ul ''A100''"
    by (simp add: lower_def is_ascii_def lower_char_def)
  have pre: "init_out demo_env = Inr ()" "ls_out demo_env = Inr [a100, h200]"
    by (simp_all add: demo_env_def)
  have sel: "find_matching ?ul (machine demo_cfg) [a100, h200] = Some a100"
    by (simp add: demo_cfg_def matches_demo)
  have none: "\<forall>x\<in>set [a100, h200]. \<not> matches ?ul (machine (demo_cfg\<lparr>machine := ''T4''\<rparr>)) x"
    by (simp add: matches_demo)
  note T = selector_first_match[of ?ul "''a100''" "[a100, h200]" a100 "''A100''" a100 demo_env
      demo_cfg init_locals demo_call]
  note N = selector_first_match[of ?ul "''a100''" "[a100, h200]" a100 "''A100''" a100 demo_env
      "demo_cfg\<lparr>machine := ''T4''\<rparr>" init_locals demo_call]
  have m: "matches ?ul ''a100'' a100"
    using T low matches_demo(1)[of ?ul] by blast
  have stage: "find_executor demo_cfg demo_env init_locals = (Inr a100, log EvLs init_locals)"
    using T pre sel by blast
  have run: "prefix [EvInit, EvLs, EvDefaultTemplate (executor_id a100)]
        (events demo_cfg demo_call demo_env)"
    using T pre sel by blast
  have stop: "outcome (demo_cfg\<lparr>machine := ''T4''\<rparr>) demo_call demo_env =
        Inl (LiumError (''No executor found matching machine type: ''
                        @ machine (demo_cfg\<lparr>machine := ''T4''\<rparr>)))
      \<and> events (demo_cfg\<lparr>machine := ''T4''\<rparr>) demo_call demo_env = [EvInit, EvLs]"
    using N pre none by blast
  from low m pre sel stage run stop none show ?thesis by simp
qed

subsection \<open>Provisioning timeout\<close>

text \<open>
  Claim C5. When \<^verbatim>\<open>wait_ready\<close>, called with the timeout of 300 seconds, answers with a
  falsy value (the pod was not ready in time), the wrapper raises the "failed to start
  within 300s" error, and the calls of the run are the construction of the SDK, the
  listing, the template lookup, the creation of the pod and the wait: the script is never
  written or uploaded and no remote command is executed.
\<close>

theorem provision_timeout_stops_pipeline:
  assumes "init_out env = Inr ()"
    and "ls_out env = Inr executors"
    and "find_matching (unicode_lower env) (machine cfg) executors = Some ex"
    and "template_out env = Inr tpl"
    and "up_out env = Inr pd"
    and "wait_ready_out env = Inr None"
  shows "outcome cfg ivk env =
           Inl (LiumError (''Pod '' @ pod_name_of ivk env @ '' failed to start within 300s''))
         \<and> events cfg ivk env =
             [EvInit, EvLs, EvDefaultTemplate (executor_id ex),
              EvUp (executor_id ex) (pod_name_of ivk env) tpl, EvWaitReady pd 300]
         \<and> (\<forall>script. EvWriteScript script \<notin> set (events cfg ivk env))
         \<and> (\<forall>p l r. EvUpload p l r \<notin> set (events cfg ivk env))
         \<and> (\<forall>st p c. EvExec st p c \<notin> set (events cfg ivk env))"
proof -
  have "wrapper cfg ivk env =
          (Inl (LiumError (''Pod '' @ pod_name_of ivk env @ '' failed to start within 300s'')),
           \<lparr>trace = [EvInit, EvLs, EvDefaultTemplate (executor_id ex),
                     EvUp (executor_id ex) (pod_name_of ivk env) tpl, EvWaitReady pd 300],
            pod_info = None, venv_path = None\<rparr>)"
    using assms
    by (simp add: wrapper_def stage_defs teardown_def remove_venv_def release_pod_def run_defs
        init_locals_def max_wait_def show_nat_demo Let_def)
  then show ?thesis
    by (simp add: outcome_def events_def)
qed

theorem provision_timeout_stops_pipeline_witness:
  "init_out (demo_env\<lparr>wait_ready_out := Inr None\<rparr>) = Inr ()
   \<and> ls_out (demo_env\<lparr>wait_ready_out := Inr None\<rparr>) = Inr [a100, h200]
   \<and> find_matching (unicode_lower (demo_env\<lparr>wait_ready_out := Inr None\<rparr>)) (machine demo_cfg)
        [a100, h200] = Some a100
   \<and> wait_ready_out (demo_env\<lparr>wait_ready_out := Inr None\<rparr>) = Inr None
   \<and> outcome demo_cfg demo_call (demo_env\<lparr>wait_ready_out := Inr None\<rparr>) =
        Inl (LiumError ''Pod remote-f-1700000000 failed to start within 300s'')
   \<and> events demo_cfg demo_call (demo_env\<lparr>wait_ready_out := Inr None\<rparr>) =
        [EvInit, EvLs, EvDefaultTemplate ''ex-1'',
         EvUp ''ex-1'' ''remote-f-1700000000'' (Some ''tpl-1''),
         EvWaitReady (PodDict ''pod-1'') 300]"
proof -
  have pre: "init_out (demo_env\<lparr>wait_ready_out := Inr None\<rparr>) = Inr ()"
    "ls_out (demo_env\<lparr>wait_ready_out := Inr None\<rparr>) = Inr [a100, h200]"
    "find_matching (unicode_lower (demo_env\<lparr>wait_ready_out := Inr None\<rparr>)) (machine demo_cfg)
       [a100, h200] = Some a100"
    "template_out (demo_env\<lparr>wait_ready_out := Inr None\<rparr>) = Inr (Some ''tpl-1'')"
    "up_out (demo_env\<lparr>wait_ready_out := Inr None\<rparr>) = Inr (PodDict ''pod-1'')"
    "wait_ready_out (demo_env\<lparr>wait_ready_out := Inr None\<rparr>) = Inr None"
    by (simp_all add: demo_env_def demo_cfg_def matches_demo)
  have name: "pod_name_of demo_call (demo_env\<lparr>wait_ready_out := Inr None\<rparr>) = ''remote-f-1700000000''"
    by (simp add: pod_name_of_def demo_call_def demo_env_def show_nat_demo)
  from provision_timeout_stops_pipeline[OF pre, of demo_call] pre name
  show ?thesis by (simp add: a100_id)
qed

subsection \<open>Failure of the installation of the requirements\<close>

text \<open>
  Claim C6. When the environment was created, at least one requirement is requested and
  the \<^verbatim>\<open>pip install\<close> command reports failure, the remote stages end there with the
  "Failed installing requirements" error, which carries the captured stderr of
  \<^verbatim>\<open>pip\<close>. The script is not run and nothing is downloaded. The inner \<^verbatim>\<open>finally\<close> deletes
  the local script, the outer one removes the remote environment and, when cleanup was
  requested, releases the pod. The error that reaches the caller is the installation
  error once the local script is deleted (a failing \<^verbatim>\<open>os.unlink\<close> is the subject of C3).
\<close>

theorem install_failure_aborts:
  assumes "init_out env = Inr ()"
    and "ls_out env = Inr executors"
    and "find_matching (unicode_lower env) (machine cfg) executors = Some ex"
    and "template_out env = Inr tpl"
    and "up_out env = Inr pd"
    and "wait_ready_out env = Inr (Some p)"
    and "getsource_out env = Inr captured"
    and "strip_decorators captured = Inr func_source"
    and "write_script_out env = Inr runner_file"
    and "upload_out env = Inr ()"
    and "venv_out env = Inr venv_result" and "success venv_result"
    and "reqs_of cfg \<noteq> []"
    and "install_out env = Inr install_result" and "\<not> success install_result"
  shows "events cfg ivk env =
           [EvInit, EvLs, EvDefaultTemplate (executor_id ex),
            EvUp (executor_id ex) (pod_name_of ivk env) tpl, EvWaitReady pd 300,
            EvGetSource,
            EvWriteScript (runner_script func_source (func_name ivk) (args_repr ivk) (kwargs_repr ivk)),
            EvUpload p runner_file ''/tmp/runner.py'',
            EvExec CreateVenv p (venv_cmd env),
            EvExec InstallReqs p (install_cmd env (reqs_of cfg)),
            EvUnlink runner_file,
            EvExec RemoveVenv p (''rm -rf '' @ shlex_quote (venv_path_of env))]
           @ (if cleanup cfg then [EvDown p] else [])
         \<and> (\<forall>q c. EvExec RunScript q c \<notin> set (events cfg ivk env))
         \<and> (unlink_runner_out env = Inr () \<longrightarrow>
              outcome cfg ivk env =
                Inl (LiumError (''Failed installing requirements ('' @ join '', '' (reqs_of cfg)
                                @ ''):'' @ [NL] @ stderr install_result)))"
proof -
  have "wrapper cfg ivk env =
     ((case unlink_runner_out env of
         Inl d \<Rightarrow> Inl (Collab d)
       | Inr u \<Rightarrow> Inl (install_error (reqs_of cfg) (stderr install_result))),
      \<lparr>trace = [EvInit, EvLs, EvDefaultTemplate (executor_id ex),
            EvUp (executor_id ex) (pod_name_of ivk env) tpl, EvWaitReady pd 300,
            EvGetSource,
            EvWriteScript (runner_script func_source (func_name ivk) (args_repr ivk) (kwargs_repr ivk)),
            EvUpload p runner_file ''/tmp/runner.py'',
            EvExec CreateVenv p (venv_cmd env),
            EvExec InstallReqs p (install_cmd env (reqs_of cfg)),
            EvUnlink runner_file,
            EvExec RemoveVenv p (''rm -rf '' @ shlex_quote (venv_path_of env))]
           @ (if cleanup cfg then [EvDown p] else []),
       pod_info = Some p, venv_path = Some (venv_path_of env)\<rparr>)"
    using assms
    by (cases "unlink_runner_out env")
       (simp_all add: wrapper_def stage_defs teardown_def remove_venv_def release_pod_def
          run_defs init_locals_def max_wait_def Let_def)
  then show ?thesis
    by (auto simp add: outcome_def events_def install_error_def)
qed
theorem install_failure_aborts_witness:
  "reqs_of demo_cfg = [''numpy==1.26.0'']
   \<and> install_out (demo_env\<lparr>install_out := Inr (failed_exec [] ''No matching distribution'')\<rparr>)
       = Inr (failed_exec [] ''No matching distribution'')
   \<and> \<not> success (failed_exec [] ''No matching distribution'')
   \<and> unlink_runner_out (demo_env\<lparr>install_out := Inr (failed_exec [] ''No matching distribution'')\<rparr>)
       = Inr ()
   \<and> outcome demo_cfg demo_call
        (demo_env\<lparr>install_out := Inr (failed_exec [] ''No matching distribution'')\<rparr>) =
       Inl (LiumError (''Failed installing requirements (numpy==1.26.0):'' @ [NL]
                       @ ''No matching distribution''))
   \<and> events demo_cfg demo_call
        (demo_env\<lparr>install_out := Inr (failed_exec [] ''No matching distribution'')\<rparr>) =
       demo_prefix @
         [EvExec InstallReqs demo_pod (demo_venv @ ''/bin/python -m pip install numpy==1.26.0''),
          EvUnlink ''/tmp/tmprunner.py'',
          EvExec RemoveVenv demo_pod (''rm -rf '' @ demo_venv),
          EvDown demo_pod]"
proof -
  define env where "env = demo_env\<lparr>install_out := Inr (failed_exec [] ''No matching distribution'')\<rparr>"
  have pre: "init_out env = Inr ()"
    "ls_out env = Inr [a100, h200]"
    "find_matching (unicode_lower env) (machine demo_cfg) [a100, h200] = Some a100"
    "template_out env = Inr (Some ''tpl-1'')"
    "up_out env = Inr (PodDict ''pod-1'')"
    "wait_ready_out env = Inr (Some demo_pod)"
    "getsource_out env = Inr demo_source"
    "strip_decorators demo_source =
       Inr (join [NL] [''def f():'', ''    return {'' @ [DQ] @ ''x'' @ [DQ] @ '': 1}'', ''''])"
    "write_script_out env = Inr ''/tmp/tmprunner.py''"
    "upload_out env = Inr ()"
    "venv_out env = Inr ok_exec" "success ok_exec"
    "reqs_of demo_cfg \<noteq> []"
    "install_out env = Inr (failed_exec [] ''No matching distribution'')"
    "\<not> success (failed_exec [] ''No matching distribution'')"
    by (simp_all add: env_def demo_env_def demo_cfg_def matches_demo strip_demo ok_exec_def
        failed_exec_def reqs_of_def)
  have more: "unlink_runner_out env = Inr ()" "cleanup demo_cfg"
    "reqs_of demo_cfg = [''numpy==1.26.0'']"
    "pod_name_of demo_call env = ''remote-f-1700000000''"
    "venv_cmd env = ''python3 -m venv '' @ demo_venv"
    "install_cmd env [''numpy==1.26.0''] = demo_venv @ ''/bin/python -m pip install numpy==1.26.0''"
    "shlex_quote (venv_path_of env) = demo_venv"
    "stderr (failed_exec [] ''No matching distribution'') = ''No matching distribution''"
    by (simp_all add: env_def demo_defs cmd_defs demo_facts)
  from install_failure_aborts[OF pre, of demo_call] pre(14,15) more
  show ?thesis
    unfolding env_def[symmetric]
    by (simp add: demo_prefix_def demo_script_def demo_call_def a100_id)
qed

subsection \<open>Teardown and the pending outcome\<close>

text \<open>
  Claim C3. The two remote steps of the outer \<^verbatim>\<open>finally\<close> block are wrapped in
  \<^verbatim>\<open>try/except Exception: pass\<close>: whatever \<^verbatim>\<open>sdk.exec\<close> and \<^verbatim>\<open>sdk.down\<close> raise, the block
  ends normally and the pending outcome stands. The deletion of the local script in the
  inner \<^verbatim>\<open>finally\<close> block (line 178) is not wrapped: in the scenario, where the remote
  run succeeded and the artifact holds the result, an \<^verbatim>\<open>os.unlink\<close> that raises replaces
  the result by its own exception.
\<close>

theorem local_unlink_masks_result:
  "fst (teardown cfg env s) = Inr ()
   \<and> outcome demo_cfg demo_call demo_env = Inr demo_result
   \<and> outcome demo_cfg demo_call (demo_env\<lparr>unlink_runner_out := Inl ''PermissionError''\<rparr>) =
       Inl (Collab ''PermissionError'')
   \<and> outcome demo_cfg demo_call
        (demo_env\<lparr>rm_venv_out := Inl ''ConnectionError'', down_out := Inl ''already released''\<rparr>) =
       Inr demo_result"
proof -
  have "wp (teardown cfg env) (\<lambda>u s'. fst (teardown cfg env s) = Inr ()) (\<lambda>e s'. False) s"
    by (cases "pod_info s"; cases "venv_path s"; cases "rm_venv_out env"; cases "down_out env")
       (simp_all add: wp_def teardown_def remove_venv_def release_pod_def run_defs)
  then have "fst (teardown cfg env s) = Inr ()"
    by (simp add: wp_def split: prod.splits sum.splits)
  moreover have "outcome demo_cfg demo_call demo_env = Inr demo_result"
    by (simp add: eval_defs demo_defs demo_facts classify_def runner_artifact_def dict_get_def)
  moreover have "outcome demo_cfg demo_call (demo_env\<lparr>unlink_runner_out := Inl ''PermissionError''\<rparr>) =
       Inl (Collab ''PermissionError'')"
    by (simp add: eval_defs demo_defs demo_facts classify_def runner_artifact_def dict_get_def)
  moreover have "outcome demo_cfg demo_call
        (demo_env\<lparr>rm_venv_out := Inl ''ConnectionError'', down_out := Inl ''already released''\<rparr>) =
       Inr demo_result"
    by (simp add: eval_defs demo_defs demo_facts classify_def runner_artifact_def dict_get_def)
  ultimately show ?thesis by simp
qed

subsection \<open>Requirements\<close>

lemma strip_decorators_Inl:
  "strip_decorators captured = Inl e \<longleftrightarrow> e = StopIteration \<and> def_index (split_nl captured) = None"
  by (auto simp add: strip_decorators_def Let_def split: option.splits)

lemma classify_Inl_cases:
  assumes "classify env rd er = Inl a"
  shows "(\<exists>m. a = LiumError (CHR ''R'' # m)) \<or> a = KeyError ''result'' \<or> (\<exists>m. a = AttributeError m)"
  using assms
  by (auto simp add: classify_def remote_failed_def no_get_def
      split: pyval.splits option.splits if_splits)

lemma install_requirements_trace:
  "trace (snd (install_requirements cfg env p s)) =
     trace s @ (if reqs_of cfg = [] then []
                else [EvExec InstallReqs p (install_cmd env (reqs_of cfg))])"
  by (cases "install_out env")
     (simp_all add: install_requirements_def run_defs Let_def)

lemma no_requirements_run:
  assumes "reqs_of cfg = []"
  shows "\<not> list_ex (is_exec InstallReqs) (events cfg ivk env)
         \<and> outcome cfg ivk env \<noteq> Inl (install_error rs err)"
proof (rule wrapper_wp[where P="\<lambda>r tr. \<not> list_ex (is_exec InstallReqs) tr \<and> r \<noteq> Inl (install_error rs err)"])
  show "wp (then_do (call EvInit (init_out env))
              (\<lambda>sdk. finally_do (pipeline cfg ivk env) (teardown cfg env)))
          (\<lambda>x s. \<not> list_ex (is_exec InstallReqs) (trace s) \<and> Inr x \<noteq> Inl (install_error rs err))
          (\<lambda>e s. \<not> list_ex (is_exec InstallReqs) (trace s) \<and> Inl e \<noteq> Inl (install_error rs err))
          init_locals"
    unfolding stage_defs Let_def
    apply (intro wp_intros)
    using assms
    apply (simp_all add: leaf_simps strip_decorators_Inl install_error_def split: option.splits)
    apply (auto dest!: classify_Inl_cases)
    done
qed

lemma requirements_run:
  assumes "reqs_of cfg \<noteq> []" and "venv_out env = Inr venv_result" and "success venv_result"
  shows "list_ex (is_exec CreateVenv) (events cfg ivk env)
         \<longrightarrow> list_ex (is_exec InstallReqs) (events cfg ivk env)"
proof (rule wrapper_wp[where P="\<lambda>r tr. list_ex (is_exec CreateVenv) tr \<longrightarrow> list_ex (is_exec InstallReqs) tr"])
  show "wp (then_do (call EvInit (init_out env))
              (\<lambda>sdk. finally_do (pipeline cfg ivk env) (teardown cfg env)))
          (\<lambda>x s. list_ex (is_exec CreateVenv) (trace s) \<longrightarrow> list_ex (is_exec InstallReqs) (trace s))
          (\<lambda>e s. list_ex (is_exec CreateVenv) (trace s) \<longrightarrow> list_ex (is_exec InstallReqs) (trace s))
          init_locals"
    unfolding stage_defs Let_def
    apply (intro wp_intros)
    using assms
    apply (simp_all add: leaf_simps split: option.splits)
    done
qed

lemma reqs_of_empty_iff:
  "reqs_of cfg = [] \<longleftrightarrow> (case requirements cfg of None \<Rightarrow> True | Some rs \<Rightarrow> set rs \<subseteq> {[]})"
  by (auto simp add: reqs_of_def filter_empty_conv split: option.splits)

text \<open>
  Claim C10. The requirements that are installed are the non-empty entries of the
  \<^verbatim>\<open>requirements\<close> argument, none when the argument is omitted. The installation step
  issues its one \<^verbatim>\<open>pip install\<close> command exactly when an entry is left. In a whole run,
  an installation command among the events means that an entry was left; when an entry is
  left and the environment was created successfully, the command is among the events; and
  when no entry is left, the run has no installation command and does not end with the
  installation error.
\<close>

theorem install_iff_requirements:
  "reqs_of cfg = filter (\<lambda>req. req \<noteq> []) (case requirements cfg of None \<Rightarrow> [] | Some rs \<Rightarrow> rs)
   \<and> (reqs_of cfg = [] \<longleftrightarrow>
        (case requirements cfg of None \<Rightarrow> True | Some rs \<Rightarrow> set rs \<subseteq> {[]}))
   \<and> trace (snd (install_requirements cfg env p s)) =
        trace s @ (if reqs_of cfg = [] then []
                   else [EvExec InstallReqs p (install_cmd env (reqs_of cfg))])
   \<and> (list_ex (is_exec InstallReqs) (events cfg ivk env) \<longrightarrow> reqs_of cfg \<noteq> [])
   \<and> (reqs_of cfg \<noteq> [] \<and> venv_out env = Inr venv_result \<and> success venv_result
        \<and> list_ex (is_exec CreateVenv) (events cfg ivk env)
        \<longrightarrow> list_ex (is_exec InstallReqs) (events cfg ivk env))
   \<and> (reqs_of cfg = [] \<longrightarrow> outcome cfg ivk env \<noteq> Inl (install_error rs err))"
  using no_requirements_run[of cfg ivk env rs err]
    requirements_run[of cfg env venv_result ivk]
    install_requirements_trace[of cfg env p s] reqs_of_empty_iff[of cfg]
  by (auto simp add: reqs_of_def)

theorem install_iff_requirements_witness:
  "reqs_of (demo_cfg\<lparr>requirements := Some ['''', '''']\<rparr>) = []
   \<and> \<not> list_ex (is_exec InstallReqs)
         (events (demo_cfg\<lparr>requirements := Some ['''', '''']\<rparr>) demo_call
            (demo_env\<lparr>install_out := Inr (failed_exec [] ''unused'')\<rparr>))
   \<and> outcome (demo_cfg\<lparr>requirements := Some ['''', '''']\<rparr>) demo_call
         (demo_env\<lparr>install_out := Inr (failed_exec [] ''unused'')\<rparr>)
       \<noteq> Inl (install_error [] ''unused'')
   \<and> reqs_of (demo_cfg\<lparr>requirements := Some ['''', ''numpy==1.26.0'']\<rparr>) = [''numpy==1.26.0'']
   \<and> venv_out demo_env = Inr ok_exec \<and> success ok_exec
   \<and> list_ex (is_exec CreateVenv)
        (events (demo_cfg\<lparr>requirements := Some ['''', ''numpy==1.26.0'']\<rparr>) demo_call demo_env)
   \<and> list_ex (is_exec InstallReqs)
        (events (demo_cfg\<lparr>requirements := Some ['''', ''numpy==1.26.0'']\<rparr>) demo_call demo_env)"
proof -
  have empty: "reqs_of (demo_cfg\<lparr>requirements := Some ['''', '''']\<rparr>) = []"
    by (simp add: reqs_of_def)
  have one: "reqs_of (demo_cfg\<lparr>requirements := Some ['''', ''numpy==1.26.0'']\<rparr>) = [''numpy==1.26.0'']"
    by (simp add: reqs_of_def)
  have venv: "venv_out demo_env = Inr ok_exec" "success ok_exec"
    by (simp_all add: demo_env_def ok_exec_def)
  have created: "list_ex (is_exec CreateVenv)
        (events (demo_cfg\<lparr>requirements := Some ['''', ''numpy==1.26.0'']\<rparr>) demo_call demo_env)"
    by (simp add: eval_defs demo_defs demo_facts classify_def runner_artifact_def dict_get_def)
  note T1 = install_iff_requirements[of "demo_cfg\<lparr>requirements := Some ['''', '''']\<rparr>"
      "demo_env\<lparr>install_out := Inr (failed_exec [] ''unused'')\<rparr>" demo_pod init_locals
      demo_call ok_exec "[]" "''unused''"]
  note T2 = install_iff_requirements[of "demo_cfg\<lparr>requirements := Some ['''', ''numpy==1.26.0'']\<rparr>"
      demo_env demo_pod init_locals demo_call ok_exec "[]" "''unused''"]
  have a: "\<not> list_ex (is_exec InstallReqs)
         (events (demo_cfg\<lparr>requirements := Some ['''', '''']\<rparr>) demo_call
            (demo_env\<lparr>install_out := Inr (failed_exec [] ''unused'')\<rparr>))"
    using T1 empty by blast
  have b: "outcome (demo_cfg\<lparr>requirements := Some ['''', '''']\<rparr>) demo_call
         (demo_env\<lparr>install_out := Inr (failed_exec [] ''unused'')\<rparr>)
       \<noteq> Inl (install_error [] ''unused'')"
    using T1 empty by blast
  have c: "list_ex (is_exec InstallReqs)
        (events (demo_cfg\<lparr>requirements := Some ['''', ''numpy==1.26.0'']\<rparr>) demo_call demo_env)"
    using T2 one venv created by simp
  from empty a b one venv created c show ?thesis by simp
qed

subsection \<open>The round trip of the result through JSON\<close>

lemma update_fresh: "k \<notin> fst ` set al \<Longrightarrow> AList.update k v al = al @ [(k, v)]"
  by (induction al) auto

lemma foldl_update_distinct:
  "distinct (map fst (acc @ kvs)) \<Longrightarrow>
     foldl (\<lambda>d (k, v). AList.update k v d) acc kvs = acc @ kvs"
proof (induction kvs arbitrary: acc)
  case Nil
  then show ?case by simp
next
  case (Cons kv kvs)
  obtain k v where kv: "kv = (k, v)" by (cases kv)
  from Cons.prems kv have fresh: "k \<notin> fst ` set acc" by auto
  from Cons.prems kv have "distinct (map fst ((acc @ [(k, v)]) @ kvs))" by simp
  from Cons.IH[OF this] kv fresh show ?case by (simp add: update_fresh)
qed

lemma json_roundtrip_native:
  "json_native v \<Longrightarrow> json_roundtrip v = Inr v"
  "json_native_list vs \<Longrightarrow> json_roundtrip_list vs = Inr vs"
  "json_native_items kvs \<Longrightarrow> json_roundtrip_items kvs = Inr kvs"
proof (induction v and vs and kvs rule: json_roundtrip_json_roundtrip_list_json_roundtrip_items.induct)
  case (7 kvs)
  then show ?case
    using foldl_update_distinct[of "[]" kvs] by simp
next
  case (11 k v kvs)
  then show ?case by (cases k) simp_all
qed simp_all

lemma runner_artifact_native:
  assumes "json_native v"
  shows "runner_artifact tb (Returns v) = PDict [(PStr ''success'', PBool True), (PStr ''result'', v)]"
  using assms by (simp add: runner_artifact_def json_roundtrip_native)

lemma classify_runner_native:
  assumes "json_native v"
  shows "classify env (runner_artifact tb (Returns v)) er = Inr v"
  using assms by (simp add: runner_artifact_native classify_def dict_get_def)

lemma classify_None: "classify env PNone er = Inl (remote_failed (stream_message er))"
  by (simp add: classify_def)

lemma faithful_run_returns:
  assumes "load_out env = Inr (runner_artifact tb (Returns v))" and "json_native v"
  shows "outcome cfg ivk env = Inr x \<longrightarrow> x = v"
proof (rule wrapper_wp[where P="\<lambda>r tr. r = Inr x \<longrightarrow> x = v"])
  show "wp (then_do (call EvInit (init_out env))
              (\<lambda>sdk. finally_do (pipeline cfg ivk env) (teardown cfg env)))
          (\<lambda>y s. Inr y = Inr x \<longrightarrow> x = v) (\<lambda>e s. Inl e = Inr x \<longrightarrow> x = v) init_locals"
    unfolding stage_defs Let_def
    apply (intro wp_intros)
    using assms
    apply (simp_all add: classify_None)
    apply (auto simp add: classify_runner_native)
    done
qed

text \<open>
  Claim C1, as amended. Assume a faithful remote interpreter: the artifact that the wrapper
  loads is what the generated script writes for the outcome of the direct call. When the
  direct call returns a value that JSON represents natively (\<^verbatim>\<open>None\<close>, a boolean, an
  integer, a string, a list of such values or a dict of such values with string keys),
  the classification returns exactly that value, and whenever the wrapper returns a value
  at all, it is that value.
\<close>

theorem faithful_native_result:
  "json_native v \<longrightarrow>
     classify env (runner_artifact tb (Returns v)) er = Inr v
     \<and> (load_out env = Inr (runner_artifact tb (Returns v)) \<and> outcome cfg ivk env = Inr x
          \<longrightarrow> x = v)"
  using classify_runner_native[of v env tb er] faithful_run_returns[of env tb v cfg ivk x]
  by blast

theorem faithful_native_result_witness:
  "json_native demo_result
   \<and> load_out demo_env = Inr (runner_artifact [] (Returns demo_result))
   \<and> classify demo_env (runner_artifact [] (Returns demo_result)) ok_exec = Inr demo_result
   \<and> outcome demo_cfg demo_call demo_env = Inr demo_result"
proof -
  have native: "json_native demo_result"
    by (simp add: demo_result_def)
  have load: "load_out demo_env = Inr (runner_artifact [] (Returns demo_result))"
    by (simp add: demo_env_def)
  have run: "outcome demo_cfg demo_call demo_env =
      Inr (PDict [(PStr ''x'', PInt 1)])"
    by (simp add: eval_defs demo_defs demo_facts classify_def runner_artifact_def dict_get_def)
  from faithful_native_result[of demo_result demo_env "[]" ok_exec demo_cfg demo_call
      "PDict [(PStr ''x'', PInt 1)]"] native load run
  show ?thesis by simp
qed

text \<open>
  The claim as stated fails for a function that returns the tuple \<^verbatim>\<open>(1, 2)\<close>: the script
  dumps it as a JSON array, and the wrapper returns the list \<^verbatim>\<open>[1, 2]\<close>.
\<close>

theorem tuple_result_counterexample:
  "outcome demo_cfg demo_call
     (demo_env\<lparr>load_out := Inr (runner_artifact [] (Returns (PTuple [PInt 1, PInt 2])))\<rparr>) =
     Inr (PList [PInt 1, PInt 2])
   \<and> PList [PInt 1, PInt 2] \<noteq> PTuple [PInt 1, PInt 2]"
  by (simp add: eval_defs demo_defs demo_facts classify_def runner_artifact_def dict_get_def)

subsection \<open>The order of the stages\<close>

lemma source_order_run: "follows (source_order env) Idle (events cfg ivk env) \<noteq> None"
proof (rule wrapper_wp[where P="\<lambda>r tr. follows (source_order env) Idle tr \<noteq> None"])
  show "wp (then_do (call EvInit (init_out env))
              (\<lambda>sdk. finally_do (pipeline cfg ivk env) (teardown cfg env)))
          (\<lambda>x s. follows (source_order env) Idle (trace s) \<noteq> None)
          (\<lambda>e s. follows (source_order env) Idle (trace s) \<noteq> None) init_locals"
    unfolding stage_defs Let_def
    apply (intro wp_intros)
    apply (simp_all add: leaf_simps split: option.splits)
    done
qed

text \<open>
  Claim C7, as amended. In every run the events respect the order of the source: the
  script is written first; it is uploaded to \<^verbatim>\<open>/tmp/runner.py\<close> right after, before the
  environment exists; the environment is created after the upload; the requirements are
  installed after the creation; and the script is run last, with the command
  \<^verbatim>\<open><venv>/bin/python /tmp/runner.py\<close> of the environment that was created.
\<close>

theorem stages_follow_source_order:
  "follows (source_order env) Idle (events cfg ivk env) \<noteq> None
   \<and> venv_cmd env = ''python3 -m venv '' @ shlex_quote (venv_path_of env)
   \<and> run_cmd env = shlex_quote (venv_path_of env @ ''/bin/python'') @ '' /tmp/runner.py''"
  using source_order_run[of env cfg ivk]
  by (simp add: venv_cmd_def run_cmd_def venv_python_of_def)

text \<open>
  The order of the claim as stated (the environment is built before the Executor stage,
  which uploads and then runs) is not the order of the concrete run: its upload comes
  before the creation of the environment.
\<close>

theorem upload_precedes_environment_counterexample:
  "follows (stated_order demo_env) Idle (events demo_cfg demo_call demo_env) = None
   \<and> follows (source_order demo_env) Idle (events demo_cfg demo_call demo_env) = Some Executed"
  by (simp add: eval_defs demo_defs demo_facts classify_def runner_artifact_def dict_get_def)

subsection \<open>The packaged source\<close>

lemma split_nl_nonempty: "split_nl s \<noteq> []"
  by (induction s) (auto split: list.splits)

lemma join_Cons: "ls \<noteq> [] \<Longrightarrow> join sep (l # ls) = l @ sep @ join sep ls"
  by (cases ls) simp_all

lemma join_split_nl: "join [NL] (split_nl s) = s"
proof (induction s)
  case Nil
  then show ?case by simp
next
  case (Cons c cs)
  show ?case
  proof (cases "c = NL")
    case True
    with Cons show ?thesis by (simp add: join_Cons split_nl_nonempty)
  next
    case False
    obtain l ls where sp: "split_nl cs = l # ls"
      using split_nl_nonempty[of cs] by (cases "split_nl cs") auto
    with Cons False show ?thesis by (cases ls) simp_all
  qed
qed

lemma split_nl_line: "NL \<notin> set l \<Longrightarrow> split_nl (l @ NL # s) = l # split_nl s"
  by (induction l) (auto split: list.splits)

lemma split_nl_single: "NL \<notin> set l \<Longrightarrow> split_nl l = [l]"
  by (induction l) (auto split: list.splits)

lemma split_nl_join:
  "ls \<noteq> [] \<Longrightarrow> (\<forall>l\<in>set ls. NL \<notin> set l) \<Longrightarrow> split_nl (join [NL] ls) = ls"
proof (induction ls)
  case Nil
  then show ?case by simp
next
  case (Cons l ls)
  show ?case
  proof (cases ls)
    case Nil
    with Cons.prems show ?thesis by (simp add: split_nl_single)
  next
    case (Cons m ms)
    with Cons.prems Cons.IH show ?thesis by (simp add: split_nl_line)
  qed
qed

lemma split_nl_lines: "l \<in> set (split_nl s) \<Longrightarrow> NL \<notin> set l"
proof (induction s arbitrary: l)
  case Nil
  then show ?case by simp
next
  case (Cons c cs)
  obtain m ms where sp: "split_nl cs = m # ms"
    using split_nl_nonempty[of cs] by (cases "split_nl cs") auto
  show ?case
  proof (cases "c = NL")
    case True
    with Cons show ?thesis by auto
  next
    case False
    with Cons.prems sp have "l = c # m \<or> l \<in> set ms" by simp
    then show ?thesis
    proof
      assume "l = c # m"
      moreover have "NL \<notin> set m" using Cons.IH[of m] sp by simp
      ultimately show ?thesis using False by simp
    next
      assume "l \<in> set ms"
      then show ?thesis using Cons.IH[of l] sp by simp
    qed
  qed
qed

lemma join_append_lines:
  "rest \<noteq> [] \<Longrightarrow> join [NL] (pre @ rest) = concat (map (\<lambda>l. l @ [NL]) pre) @ join [NL] rest"
  by (induction pre) (simp_all add: join_Cons)

lemma def_index_Some:
  "def_index ls = Some i \<Longrightarrow>
     i < length ls \<and> sublist ''def '' (ls ! i) \<and> (\<forall>l\<in>set (take i ls). \<not> sublist ''def '' l)"
proof (induction ls arbitrary: i)
  case Nil
  then show ?case by simp
next
  case (Cons l ls)
  show ?case
  proof (cases "sublist ''def '' l")
    case True
    with Cons.prems show ?thesis by simp
  next
    case False
    with Cons.prems obtain j where j: "def_index ls = Some j" "i = Suc j" by auto
    from Cons.IH[OF j(1)] False j(2) show ?thesis by simp
  qed
qed

lemma def_index_None: "def_index ls = None \<longleftrightarrow> (\<forall>l\<in>set ls. \<not> sublist ''def '' l)"
  by (induction ls) auto

text \<open>
  Claim C8. When the captured source has a line that contains \<^verbatim>\<open>def \<close>, the lines of the
  source split into the lines before the first such line, none of which contains
  \<^verbatim>\<open>def \<close>, and the rest; the packaged source is the captured source without those leading
  lines (each with its newline), its lines are the rest, so it starts at the first line
  that contains \<^verbatim>\<open>def \<close>; and the script embeds it unchanged between the fixed header and
  the footer. The packaging step writes exactly that script.
\<close>

theorem packager_strips_decorators:
  assumes "strip_decorators captured = Inr func_source"
  shows "\<exists>pre rest.
           split_nl captured = pre @ rest \<and> rest \<noteq> []
           \<and> (\<forall>l\<in>set pre. \<not> sublist ''def '' l)
           \<and> sublist ''def '' (hd rest)
           \<and> captured = concat (map (\<lambda>l. l @ [NL]) pre) @ func_source
           \<and> split_nl func_source = rest
           \<and> hd (split_nl func_source) = hd rest
           \<and> runner_script func_source name args kwargs =
               script_header @ func_source @ script_footer name args kwargs
           \<and> (getsource_out env = Inr captured \<longrightarrow>
                trace (snd (package ivk env s)) =
                  trace s @ [EvGetSource,
                             EvWriteScript (runner_script func_source (func_name ivk)
                                              (args_repr ivk) (kwargs_repr ivk))])"
proof -
  from assms obtain i where i: "def_index (split_nl captured) = Some i"
    and fs: "func_source = join [NL] (drop i (split_nl captured))"
    by (auto simp add: strip_decorators_def Let_def split: option.splits)
  let ?pre = "take i (split_nl captured)" and ?rest = "drop i (split_nl captured)"
  from def_index_Some[OF i]
  have lt: "i < length (split_nl captured)"
    and here: "sublist ''def '' (split_nl captured ! i)"
    and before: "\<forall>l\<in>set ?pre. \<not> sublist ''def '' l"
    by simp_all
  from lt have ne: "?rest \<noteq> []" by simp
  from lt have hd: "hd ?rest = split_nl captured ! i" by (simp add: hd_drop_conv_nth)
  have lines: "\<forall>l\<in>set ?rest. NL \<notin> set l"
    using split_nl_lines[of _ captured] by (auto dest: in_set_dropD)
  have rest_lines: "split_nl func_source = ?rest"
    unfolding fs using split_nl_join[OF ne lines] .
  have "captured = join [NL] (?pre @ ?rest)"
    by (simp add: join_split_nl)
  also have "\<dots> = concat (map (\<lambda>l. l @ [NL]) ?pre) @ func_source"
    unfolding fs using join_append_lines[OF ne] .
  finally have whole: "captured = concat (map (\<lambda>l. l @ [NL]) ?pre) @ func_source" .
  have pkg: "getsource_out env = Inr captured \<longrightarrow>
                trace (snd (package ivk env s)) =
                  trace s @ [EvGetSource,
                             EvWriteScript (runner_script func_source (func_name ivk)
                                              (args_repr ivk) (kwargs_repr ivk))]"
    using assms by (cases "write_script_out env") (simp_all add: package_def run_defs)
  have "split_nl captured = ?pre @ ?rest \<and> ?rest \<noteq> []
           \<and> (\<forall>l\<in>set ?pre. \<not> sublist ''def '' l)
           \<and> sublist ''def '' (hd ?rest)
           \<and> captured = concat (map (\<lambda>l. l @ [NL]) ?pre) @ func_source
           \<and> split_nl func_source = ?rest
           \<and> hd (split_nl func_source) = hd ?rest
           \<and> runner_script func_source name args kwargs =
               script_header @ func_source @ script_footer name args kwargs
           \<and> (getsource_out env = Inr captured \<longrightarrow>
                trace (snd (package ivk env s)) =
                  trace s @ [EvGetSource,
                             EvWriteScript (runner_script func_source (func_name ivk)
                                              (args_repr ivk) (kwargs_repr ivk))])"
    using ne before here hd whole rest_lines pkg by (simp add: runner_script_def)
  then show ?thesis by blast
qed

theorem packager_strips_decorators_witness:
  "strip_decorators demo_source =
     Inr (join [NL] [''def f():'', ''    return {'' @ [DQ] @ ''x'' @ [DQ] @ '': 1}'', ''''])
   \<and> hd (split_nl (join [NL] [''def f():'', ''    return {'' @ [DQ] @ ''x'' @ [DQ] @ '': 1}'', '''']))
       = ''def f():''
   \<and> (\<exists>pre rest.
         split_nl demo_source = pre @ rest \<and> rest \<noteq> []
         \<and> (\<forall>l\<in>set pre. \<not> sublist ''def '' l)
         \<and> sublist ''def '' (hd rest)
         \<and> demo_source = concat (map (\<lambda>l. l @ [NL]) pre)
             @ join [NL] [''def f():'', ''    return {'' @ [DQ] @ ''x'' @ [DQ] @ '': 1}'', '''']
         \<and> hd (split_nl (join [NL] [''def f():'', ''    return {'' @ [DQ] @ ''x'' @ [DQ] @ '': 1}'', '''']))
             = hd rest)"
proof -
  have first: "hd (split_nl (join [NL] [''def f():'', ''    return {'' @ [DQ] @ ''x'' @ [DQ] @ '': 1}'', '''']))
       = ''def f():''"
    by simp
  from packager_strips_decorators[OF strip_demo, of "''f''" "''()''" "''{}''" demo_env demo_call
      init_locals]
  obtain pre rest where
    "split_nl demo_source = pre @ rest \<and> rest \<noteq> []
         \<and> (\<forall>l\<in>set pre. \<not> sublist ''def '' l)
         \<and> sublist ''def '' (hd rest)
         \<and> demo_source = concat (map (\<lambda>l. l @ [NL]) pre)
             @ join [NL] [''def f():'', ''    return {'' @ [DQ] @ ''x'' @ [DQ] @ '': 1}'', '''']
         \<and> hd (split_nl (join [NL] [''def f():'', ''    return {'' @ [DQ] @ ''x'' @ [DQ] @ '': 1}'', '''']))
             = hd rest"
    by blast
  with strip_demo first show ?thesis by blast
qed

subsection \<open>Classification of the outcome\<close>

lemma classify_falsy:
  "\<not> py_truthy v \<Longrightarrow> classify env v er = Inl (remote_failed (stream_message er))"
  by (simp add: classify_def)

lemma classify_load_indep: "classify (env\<lparr>load_out := l\<rparr>) v er = classify env v er"
  by (simp add: classify_def artifact_message_def py_str_def cong: pyval.case_cong if_cong)

lemma retrieve_falsy:
  assumes "\<not> py_truthy v"
  shows "retrieve (env\<lparr>load_out := Inr v\<rparr>) p er s = retrieve (env\<lparr>load_out := Inl d\<rparr>) p er s"
  using assms
  by (cases "mktemp_out env"; cases "download_out env"; cases "unlink_result_out env")
     (simp_all add: retrieve_def download_result_def run_defs classify_load_indep classify_falsy
        classify_None)

lemma wrapper_falsy:
  assumes "\<not> py_truthy v"
  shows "wrapper cfg ivk (env\<lparr>load_out := Inr v\<rparr>) = wrapper cfg ivk (env\<lparr>load_out := Inl d\<rparr>)"
proof -
  have r: "retrieve (env\<lparr>load_out := Inr v\<rparr>) = retrieve (env\<lparr>load_out := Inl d\<rparr>)"
    using retrieve_falsy[OF assms] by (intro ext)
  have td: "remove_venv (env\<lparr>load_out := l\<rparr>) = remove_venv env"
    "release_pod cfg (env\<lparr>load_out := l\<rparr>) = release_pod cfg env" for l
    by (simp_all add: fun_eq_iff remove_venv_def release_pod_def cong: option.case_cong if_cong)
  have stages: "find_executor cfg (env\<lparr>load_out := l\<rparr>) = find_executor cfg env"
    "create_pod ivk (env\<lparr>load_out := l\<rparr>) = create_pod ivk env"
    "package ivk (env\<lparr>load_out := l\<rparr>) = package ivk env"
    "create_venv (env\<lparr>load_out := l\<rparr>) = create_venv env"
    "install_requirements cfg (env\<lparr>load_out := l\<rparr>) = install_requirements cfg env"
    "run_cmd (env\<lparr>load_out := l\<rparr>) = run_cmd env"
    "teardown cfg (env\<lparr>load_out := l\<rparr>) = teardown cfg env" for l
    by (simp_all add: find_executor_def create_pod_def package_def create_venv_def
        install_requirements_def teardown_def td cmd_defs fun_eq_iff
        Let_def cong: sum.case_cong option.case_cong if_cong)
  show ?thesis
    by (simp add: wrapper_def pipeline_def remote_body_def stages r)
qed

lemma retrieve_no_download:
  assumes "\<not> py_truthy v"
  shows "fst (retrieve (env\<lparr>download_out := Inr (), load_out := Inr v\<rparr>) p er s) =
         fst (retrieve (env\<lparr>download_out := Inl d\<rparr>) p er s)"
  using assms
  by (cases "mktemp_out env"; cases "unlink_result_out env")
     (simp_all add: retrieve_def download_result_def run_defs classify_def artifact_message_def
        py_str_def)

lemma download_result_loaded:
  assumes "case mktemp_out env of Inl d \<Rightarrow> True
           | Inr f \<Rightarrow> f = [] \<or> \<not> result_exists env \<or> unlink_result_out env = Inr ()"
  shows "fst (download_result env p s) = Inr (loaded_artifact env)"
  using assms
  by (cases "mktemp_out env"; cases "download_out env"; cases "load_out env")
     (auto simp add: download_result_def loaded_artifact_def run_defs)

lemma retrieve_classify:
  assumes "case mktemp_out env of Inl d \<Rightarrow> True
           | Inr f \<Rightarrow> f = [] \<or> \<not> result_exists env \<or> unlink_result_out env = Inr ()"
  shows "fst (retrieve env p er s) = classify env (loaded_artifact env) er"
proof -
  obtain s' where d: "download_result env p s = (Inr (loaded_artifact env), s')"
    using download_result_loaded[OF assms, of p s] by (cases "download_result env p s") simp
  show ?thesis
    by (cases "classify env (loaded_artifact env) er")
       (simp_all add: retrieve_def then_do_def d raise_def return_def)
qed

lemma run_outcome:
  assumes "runs_script cfg env p er" and "unlinks_succeed env"
  shows "outcome cfg ivk env = classify env (loaded_artifact env) er"
proof (rule wrapper_wp[where P="\<lambda>r tr. r = classify env (loaded_artifact env) er"])
  show "wp (then_do (call EvInit (init_out env))
              (\<lambda>sdk. finally_do (pipeline cfg ivk env) (teardown cfg env)))
          (\<lambda>x s. Inr x = classify env (loaded_artifact env) er)
          (\<lambda>e s. Inl e = classify env (loaded_artifact env) er) init_locals"
    unfolding stage_defs Let_def
    apply (intro wp_intros)
    using assms
    apply (simp_all add: runs_script_def unlinks_succeed_def loaded_artifact_def)
    done
qed

lemma demo_runs_script:
  assumes "init_out env = init_out demo_env" "ls_out env = ls_out demo_env"
    "unicode_lower env = unicode_lower demo_env"
    "template_out env = template_out demo_env" "up_out env = up_out demo_env"
    "wait_ready_out env = wait_ready_out demo_env" "getsource_out env = getsource_out demo_env"
    "write_script_out env = write_script_out demo_env" "upload_out env = upload_out demo_env"
    "venv_out env = venv_out demo_env" "install_out env = install_out demo_env"
    "run_out env = Inr er"
  shows "runs_script demo_cfg env demo_pod er"
  using assms
  by (simp add: runs_script_def demo_env_def demo_cfg_def matches_demo strip_demo ok_exec_def)

text \<open>
  Claim C9. A loaded value that is falsy (\<^verbatim>\<open>null\<close>, \<^verbatim>\<open>false\<close>, \<^verbatim>\<open>0\<close>, an empty string,
  list or object) is classified like the \<^verbatim>\<open>None\<close> that stands for a missing artifact:
  the error is built from stderr, else stdout, else the generic message, whatever the
  value is. When the file is downloaded and loads to such a value, the retrieval raises
  that error, and so does the wrapper in a run that reached the script (provided the
  deletions of the local files do not raise). The whole run, its events included, is the
  run in which loading the file raised, and the outcome of the retrieval is the one of a
  download that raised.
\<close>

theorem falsy_artifact_is_no_artifact:
  "\<not> py_truthy v \<longrightarrow>
     classify env v er = classify env PNone er
     \<and> classify env v er =
         Inl (LiumError (''Remote execution failed:'' @ [NL] @
               (if stderr er \<noteq> [] then stderr er
                else if stdout er \<noteq> [] then stdout er
                else ''Unknown remote error'')))
     \<and> wrapper cfg ivk (env\<lparr>load_out := Inr v\<rparr>) = wrapper cfg ivk (env\<lparr>load_out := Inl d\<rparr>)
     \<and> fst (retrieve (env\<lparr>download_out := Inr (), load_out := Inr v\<rparr>) p er s) =
         fst (retrieve (env\<lparr>download_out := Inl d\<rparr>) p er s)
     \<and> (mktemp_out env = Inr f \<and> download_out env = Inr () \<and> load_out env = Inr v
          \<and> (f = [] \<or> \<not> result_exists env \<or> unlink_result_out env = Inr ())
        \<longrightarrow> fst (retrieve env p er s) =
              Inl (LiumError (''Remote execution failed:'' @ [NL] @
                    (if stderr er \<noteq> [] then stderr er
                     else if stdout er \<noteq> [] then stdout er
                     else ''Unknown remote error''))))
     \<and> (runs_script cfg env p er \<and> unlinks_succeed env
          \<and> mktemp_out env = Inr f \<and> download_out env = Inr () \<and> load_out env = Inr v
        \<longrightarrow> outcome cfg ivk env =
              Inl (LiumError (''Remote execution failed:'' @ [NL] @
                    (if stderr er \<noteq> [] then stderr er
                     else if stdout er \<noteq> [] then stdout er
                     else ''Unknown remote error''))))"
proof
  assume falsy: "\<not> py_truthy v"
  let ?err = "Inl (LiumError (''Remote execution failed:'' @ [NL] @
               (if stderr er \<noteq> [] then stderr er
                else if stdout er \<noteq> [] then stdout er
                else ''Unknown remote error''))) :: error + pyval"
  have c: "classify env v er = ?err"
    using classify_falsy[OF falsy, of env er]
    by (simp add: remote_failed_def stream_message_def unknown_remote_error_def)
  have n: "classify env v er = classify env PNone er"
    using classify_falsy[OF falsy, of env er] by (simp add: classify_None)
  have r: "fst (retrieve env p er s) = ?err"
    if "mktemp_out env = Inr f" "download_out env = Inr ()" "load_out env = Inr v"
      "f = [] \<or> \<not> result_exists env \<or> unlink_result_out env = Inr ()"
  proof -
    have "loaded_artifact env = v"
      using that by (simp add: loaded_artifact_def)
    moreover have "fst (retrieve env p er s) = classify env (loaded_artifact env) er"
      using that by (intro retrieve_classify) simp
    ultimately show ?thesis using c by simp
  qed
  have w: "outcome cfg ivk env = ?err"
    if "runs_script cfg env p er" "unlinks_succeed env"
      "mktemp_out env = Inr f" "download_out env = Inr ()" "load_out env = Inr v"
  proof -
    have "loaded_artifact env = v"
      using that by (simp add: loaded_artifact_def)
    with run_outcome[OF that(1,2), of ivk] c show ?thesis by simp
  qed
  show "classify env v er = classify env PNone er
     \<and> classify env v er = ?err
     \<and> wrapper cfg ivk (env\<lparr>load_out := Inr v\<rparr>) = wrapper cfg ivk (env\<lparr>load_out := Inl d\<rparr>)
     \<and> fst (retrieve (env\<lparr>download_out := Inr (), load_out := Inr v\<rparr>) p er s) =
         fst (retrieve (env\<lparr>download_out := Inl d\<rparr>) p er s)
     \<and> (mktemp_out env = Inr f \<and> download_out env = Inr () \<and> load_out env = Inr v
          \<and> (f = [] \<or> \<not> result_exists env \<or> unlink_result_out env = Inr ())
        \<longrightarrow> fst (retrieve env p er s) = ?err)
     \<and> (runs_script cfg env p er \<and> unlinks_succeed env
          \<and> mktemp_out env = Inr f \<and> download_out env = Inr () \<and> load_out env = Inr v
        \<longrightarrow> outcome cfg ivk env = ?err)"
    using c n r w wrapper_falsy[OF falsy, of cfg ivk env d]
      retrieve_no_download[OF falsy, of env p er s d]
    by blast
qed

theorem falsy_artifact_is_no_artifact_witness:
  "\<not> py_truthy (PDict []) \<and> \<not> py_truthy (PInt 0) \<and> \<not> py_truthy (PStr [])
   \<and> classify demo_env (PDict []) (failed_exec ''out'' ''err'') =
       Inl (LiumError (''Remote execution failed:'' @ [NL] @ ''err''))
   \<and> classify demo_env (PInt 0) (failed_exec ''out'' []) =
       Inl (LiumError (''Remote execution failed:'' @ [NL] @ ''out''))
   \<and> classify demo_env (PStr []) (failed_exec [] []) =
       Inl (LiumError (''Remote execution failed:'' @ [NL] @ ''Unknown remote error''))
   \<and> wrapper demo_cfg demo_call (demo_env\<lparr>load_out := Inr (PDict [])\<rparr>) =
       wrapper demo_cfg demo_call (demo_env\<lparr>load_out := Inl ''JSONDecodeError''\<rparr>)
   \<and> runs_script demo_cfg
        (demo_env\<lparr>run_out := Inr (failed_exec ''out'' ''err''), load_out := Inr (PDict [])\<rparr>)
        demo_pod (failed_exec ''out'' ''err'')
   \<and> unlinks_succeed
        (demo_env\<lparr>run_out := Inr (failed_exec ''out'' ''err''), load_out := Inr (PDict [])\<rparr>)
   \<and> fst (retrieve
        (demo_env\<lparr>run_out := Inr (failed_exec ''out'' ''err''), load_out := Inr (PDict [])\<rparr>)
        demo_pod (failed_exec ''out'' ''err'') init_locals) =
       Inl (LiumError (''Remote execution failed:'' @ [NL] @ ''err''))
   \<and> outcome demo_cfg demo_call
        (demo_env\<lparr>run_out := Inr (failed_exec ''out'' ''err''), load_out := Inr (PDict [])\<rparr>) =
       Inl (LiumError (''Remote execution failed:'' @ [NL] @ ''err''))"
proof -
  define env where
    "env = demo_env\<lparr>run_out := Inr (failed_exec ''out'' ''err''), load_out := Inr (PDict [])\<rparr>"
  note T1 = falsy_artifact_is_no_artifact[where v="PDict []" and env=demo_env
      and er="failed_exec ''out'' ''err''" and cfg=demo_cfg and ivk=demo_call
      and d="''JSONDecodeError''" and p=demo_pod and s=init_locals and f="''/tmp/tmpresult''"]
  note T2 = falsy_artifact_is_no_artifact[where v="PInt 0" and env=demo_env
      and er="failed_exec ''out'' []" and cfg=demo_cfg and ivk=demo_call
      and d="''JSONDecodeError''" and p=demo_pod and s=init_locals and f="''/tmp/tmpresult''"]
  note T3 = falsy_artifact_is_no_artifact[where v="PStr []" and env=demo_env
      and er="failed_exec [] []" and cfg=demo_cfg and ivk=demo_call
      and d="''JSONDecodeError''" and p=demo_pod and s=init_locals and f="''/tmp/tmpresult''"]
  note T4 = falsy_artifact_is_no_artifact[where v="PDict []" and env=env
      and er="failed_exec ''out'' ''err''" and cfg=demo_cfg and ivk=demo_call
      and d="''JSONDecodeError''" and p=demo_pod and s=init_locals and f="''/tmp/tmpresult''"]
  have f: "\<not> py_truthy (PDict [])" "\<not> py_truthy (PInt 0)" "\<not> py_truthy (PStr [])"
    by simp_all
  note U1 = T1[THEN mp, OF f(1)] and U2 = T2[THEN mp, OF f(2)] and U3 = T3[THEN mp, OF f(3)]
    and U4 = T4[THEN mp, OF f(1)]
  have a: "classify demo_env (PDict []) (failed_exec ''out'' ''err'') =
       Inl (LiumError (''Remote execution failed:'' @ [NL] @ ''err''))"
    using U1[THEN conjunct2, THEN conjunct1] by (simp add: failed_exec_def)
  have b: "classify demo_env (PInt 0) (failed_exec ''out'' []) =
       Inl (LiumError (''Remote execution failed:'' @ [NL] @ ''out''))"
    using U2[THEN conjunct2, THEN conjunct1] by (simp add: failed_exec_def)
  have c: "classify demo_env (PStr []) (failed_exec [] []) =
       Inl (LiumError (''Remote execution failed:'' @ [NL] @ ''Unknown remote error''))"
    using U3[THEN conjunct2, THEN conjunct1] by (simp add: failed_exec_def)
  note d = U1[THEN conjunct2, THEN conjunct2, THEN conjunct1]
  have reach: "runs_script demo_cfg env demo_pod (failed_exec ''out'' ''err'')"
    by (rule demo_runs_script) (simp_all add: env_def)
  have unl: "unlinks_succeed env"
    by (simp add: unlinks_succeed_def env_def demo_env_def)
  have art: "mktemp_out env = Inr ''/tmp/tmpresult''" "download_out env = Inr ()"
    "load_out env = Inr (PDict [])" "unlink_result_out env = Inr ()"
    by (simp_all add: env_def demo_env_def)
  have r: "fst (retrieve env demo_pod (failed_exec ''out'' ''err'') init_locals) =
       Inl (LiumError (''Remote execution failed:'' @ [NL] @ ''err''))"
    using U4[THEN conjunct2, THEN conjunct2, THEN conjunct2, THEN conjunct2, THEN conjunct1] art
    by (simp add: failed_exec_def)
  have w: "outcome demo_cfg demo_call env =
       Inl (LiumError (''Remote execution failed:'' @ [NL] @ ''err''))"
    using U4[THEN conjunct2, THEN conjunct2, THEN conjunct2, THEN conjunct2, THEN conjunct2]
      reach unl art
    by (simp add: failed_exec_def)
  from f a b c d reach unl r w show ?thesis
    unfolding env_def by simp
qed








end
